theory Spec2Isabelle
  imports Complex_Main
begin

section \<open>Waste types and the category table (types/waste)\<close>

text \<open>
  Points are integers. Identifiers are opaque uuid strings that the code only compares for
  equality; they are natural numbers here, and the store's uuid generator is a counter.
  Presentation fields (labels, colours, images, suggestions, timestamps) are not read by
  the operations below and are left out of the records.
\<close>

type_synonym ident = nat

datatype WasteCategory = clothing | electronics | compost | recyclable | hazardous | other

datatype DisposalChoice = donate | trade | recycle | discard | special

datatype ScanStatus = pending | approved | rejected

record WasteItem =
  name :: string
  category :: WasteCategory
  points :: int
  status :: ScanStatus
  disposalChoice :: "DisposalChoice option"
  basePoints :: int
  finalPoints :: int
  isRetry :: bool

record UserStats =
  totalPoints :: int
  level :: int
  scansToday :: int
  streak :: int
  itemsRecycled :: int
  pendingPoints :: int

record choice_config =
  choice_value :: DisposalChoice
  pointsMultiplier :: real
  isPrimary :: bool

record category_config =
  needsChoice :: bool
  choices :: "choice_config list option"

fun categoryInfo :: "WasteCategory \<Rightarrow> category_config" where
  "categoryInfo clothing = \<lparr>needsChoice = True, choices = Some
     [\<lparr>choice_value = donate, pointsMultiplier = 2, isPrimary = True\<rparr>,
      \<lparr>choice_value = trade, pointsMultiplier = 18 / 10, isPrimary = True\<rparr>,
      \<lparr>choice_value = discard, pointsMultiplier = 1, isPrimary = False\<rparr>]\<rparr>"
| "categoryInfo electronics = \<lparr>needsChoice = True, choices = Some
     [\<lparr>choice_value = trade, pointsMultiplier = 2, isPrimary = True\<rparr>,
      \<lparr>choice_value = recycle, pointsMultiplier = 15 / 10, isPrimary = True\<rparr>,
      \<lparr>choice_value = discard, pointsMultiplier = 5 / 10, isPrimary = False\<rparr>]\<rparr>"
| "categoryInfo compost = \<lparr>needsChoice = True, choices = Some
     [\<lparr>choice_value = recycle, pointsMultiplier = 15 / 10, isPrimary = True\<rparr>,
      \<lparr>choice_value = discard, pointsMultiplier = 1, isPrimary = False\<rparr>]\<rparr>"
| "categoryInfo recyclable = \<lparr>needsChoice = True, choices = Some
     [\<lparr>choice_value = trade, pointsMultiplier = 15 / 10, isPrimary = True\<rparr>,
      \<lparr>choice_value = recycle, pointsMultiplier = 15 / 10, isPrimary = True\<rparr>,
      \<lparr>choice_value = discard, pointsMultiplier = 1, isPrimary = False\<rparr>]\<rparr>"
| "categoryInfo hazardous = \<lparr>needsChoice = True, choices = Some
     [\<lparr>choice_value = special, pointsMultiplier = 2, isPrimary = True\<rparr>]\<rparr>"
| "categoryInfo other = \<lparr>needsChoice = False, choices = None\<rparr>"

section \<open>The store and the device's local storage\<close>

text \<open>
  Each table is a list of rows. A column that an insert may leave to the store's default,
  or that the code reads with \<open>|| 0\<close>, is optional.
\<close>

record scan_row =
  scan_id :: ident
  user_id :: ident
  item_name :: string
  category_col :: WasteCategory
  points_col :: int
  base_points :: "int option"
  final_points :: "int option"
  status_col :: "ScanStatus option"
  disposal_choice :: "DisposalChoice option"

record profile =
  profile_id :: ident
  username :: "string option"
  total_points :: "int option"
  level_col :: "int option"
  streak_col :: "int option"
  items_recycled :: "int option"

datatype ListingStatus = draft | pending_review | active | sold | cancelled

record listing_row =
  listing_id :: ident
  seller_id :: ident
  scan_ref :: "ident option"
  listing_title :: string
  price_points :: int
  listing_status :: ListingStatus

datatype OrderStatus = order_pending | completed | order_cancelled

record order_row =
  order_listing_id :: ident
  buyer_id :: ident
  order_seller_id :: ident
  order_price_points :: int
  order_status :: OrderStatus

datatype notification_type = reward | alert

record notification =
  target_user_id :: ident
  notification_title :: string
  notification_type :: notification_type

record message_row =
  sender_id :: ident
  receiver_id :: ident
  message_listing_id :: ident

record database =
  scan_history :: "scan_row list"
  profiles :: "profile list"
  marketplace_listings :: "listing_row list"
  orders :: "order_row list"
  system_notifications :: "notification list"
  messages :: "message_row list"
  next_id :: ident

text \<open>
  The two guest entries of \<open>localStorage\<close> for this device. An entry is absent, holds
  text that \<open>JSON.parse\<close> rejects, or holds what \<open>saveGuestData\<close> wrote.
\<close>

datatype 'a stored = Malformed | Parsed 'a

record localStorage =
  guest_stats :: "UserStats stored option"
  guest_history :: "WasteItem list stored option"

record auth =
  user :: "ident option"
  isGuest :: bool

text \<open>\<open>update(...).eq('id', uid)\<close> on profiles: every row with that id is rewritten.\<close>

definition update_profile :: "ident \<Rightarrow> (profile \<Rightarrow> profile) \<Rightarrow> database \<Rightarrow> database" where
  "update_profile uid f d =
     d\<lparr>profiles := map (\<lambda>p. if profile_id p = uid then f p else p) (profiles d)\<rparr>"

definition insert_scan :: "(ident \<Rightarrow> scan_row) \<Rightarrow> database \<Rightarrow> ident \<times> database" where
  "insert_scan mk d =
     (next_id d, d\<lparr>scan_history := scan_history d @ [mk (next_id d)], next_id := Suc (next_id d)\<rparr>)"

definition insert_listing :: "(ident \<Rightarrow> listing_row) \<Rightarrow> database \<Rightarrow> database" where
  "insert_listing mk d =
     d\<lparr>marketplace_listings := marketplace_listings d @ [mk (next_id d)],
       next_id := Suc (next_id d)\<rparr>"

section \<open>The scanner hook (useWasteScanner)\<close>

definition calculateLevel :: "int \<Rightarrow> int" where
  "calculateLevel pts = pts div 100 + 1"

text \<open>
  \<open>Math.round\<close> rounds to the nearest integer, a half upwards. The multipliers of the
  table are decimal constants, kept exact as real numbers.
\<close>

definition Math_round :: "real \<Rightarrow> int" where
  "Math_round x = \<lfloor>x + 1 / 2\<rfloor>"

record scanner =
  stats :: UserStats
  scanHistory :: "WasteItem list"
  lastScannedItem :: "WasteItem option"
  showReward :: bool
  showLevelUp :: bool

record world =
  hook :: scanner
  storage :: localStorage
  db :: database

definition checkLevelUp :: "int \<Rightarrow> int \<Rightarrow> scanner \<Rightarrow> scanner" where
  "checkLevelUp oldLevel newLevel h = (if newLevel > oldLevel then h\<lparr>showLevelUp := True\<rparr> else h)"

definition saveGuestData :: "UserStats \<Rightarrow> WasteItem list \<Rightarrow> localStorage \<Rightarrow> localStorage" where
  "saveGuestData newStats newHistory ls =
     ls\<lparr>guest_stats := Some (Parsed newStats), guest_history := Some (Parsed newHistory)\<rparr>"

record ClassificationResult =
  result_name :: string
  result_category :: WasteCategory
  result_points :: int
  result_isRetry :: bool

text \<open>
  \<open>scanWithImage\<close> after the classifier has answered with \<open>result\<close> (a classifier
  that throws leaves the state as it was). The store's answers are not inspected by the
  hook; its writes are taken to succeed.
\<close>

definition scanWithImage :: "auth \<Rightarrow> world \<Rightarrow> ClassificationResult \<Rightarrow> world" where
  "scanWithImage a w0 result =
     (let w = w0\<lparr>hook := (hook w0)\<lparr>showReward := False\<rparr>\<rparr>;
          st = stats (hook w);
          hist = scanHistory (hook w);
          cfg = categoryInfo (result_category result);
          needs = needsChoice cfg;
          initialStatus = (if result_category result = other then approved else pending);
          newItem = \<lparr>name = result_name result, category = result_category result,
                     points = result_points result, status = initialStatus,
                     disposalChoice = (if needs then None else Some discard),
                     basePoints = result_points result, finalPoints = result_points result,
                     isRetry = result_isRetry result\<rparr>
      in if result_isRetry result then w\<lparr>hook := (hook w)\<lparr>lastScannedItem := Some newItem\<rparr>\<rparr>
         else
           (let w1 =
              (if \<not> needs then
                 (if result_category result = other then
                    (let newPoints = totalPoints st + result_points result;
                         newLevel = calculateLevel newPoints;
                         oldLevel = level st;
                         newStats = st\<lparr>totalPoints := newPoints, level := newLevel,
                                        scansToday := scansToday st + 1,
                                        itemsRecycled := itemsRecycled st + 1\<rparr>;
                         newHistory = newItem # hist;
                         w2 = (if isGuest a then
                                 w\<lparr>storage := saveGuestData newStats newHistory (storage w)\<rparr>
                               else (case user a of
                                  Some uid \<Rightarrow>
                                    (let d1 = snd (insert_scan (\<lambda>i. \<lparr>scan_id = i, user_id = uid,
                                                 item_name = result_name result,
                                                 category_col = result_category result,
                                                 points_col = result_points result,
                                                 base_points = Some (result_points result),
                                                 final_points = Some (result_points result),
                                                 status_col = Some approved,
                                                 disposal_choice = None\<rparr>) (db w));
                                         d2 = update_profile uid
                                                (\<lambda>p. p\<lparr>total_points := Some newPoints,
                                                         level_col := Some newLevel,
                                                         items_recycled := Some (itemsRecycled st + 1)\<rparr>) d1
                                     in w\<lparr>db := d2\<rparr>)
                                | None \<Rightarrow> w))
                     in w2\<lparr>hook := checkLevelUp oldLevel newLevel
                                      ((hook w2)\<lparr>scanHistory := newHistory, stats := newStats\<rparr>)\<rparr>)
                  else
                    (let newStats = st\<lparr>scansToday := scansToday st + 1,
                                        pendingPoints := pendingPoints st + result_points result\<rparr>;
                         newHistory = newItem # hist;
                         w2 = (if isGuest a then
                                 w\<lparr>storage := saveGuestData newStats newHistory (storage w)\<rparr>
                               else (case user a of
                                  Some uid \<Rightarrow>
                                    w\<lparr>db := snd (insert_scan (\<lambda>i. \<lparr>scan_id = i, user_id = uid,
                                                 item_name = result_name result,
                                                 category_col = result_category result,
                                                 points_col = result_points result,
                                                 base_points = Some (result_points result),
                                                 final_points = Some (result_points result),
                                                 status_col = Some pending,
                                                 disposal_choice = None\<rparr>) (db w))\<rparr>
                                | None \<Rightarrow> w))
                     in w2\<lparr>hook := (hook w2)\<lparr>scanHistory := newHistory, stats := newStats\<rparr>\<rparr>))
               else w)
            in w1\<lparr>hook := (hook w1)\<lparr>lastScannedItem := Some newItem, showReward := True\<rparr>\<rparr>))"

text \<open>
  \<open>handleDisposalChoice\<close>: the multiplier is looked up in the category's choices and
  defaults to 1 when the choice is not listed. The result is \<open>None\<close> when there is no
  last scanned item, and otherwise tells whether the choice was trade.
\<close>

definition choice_multiplier :: "WasteCategory \<Rightarrow> DisposalChoice \<Rightarrow> real" where
  "choice_multiplier c choice =
     (case (case choices (categoryInfo c) of
              None \<Rightarrow> None
            | Some cs \<Rightarrow> find (\<lambda>cc. choice_value cc = choice) cs) of
        None \<Rightarrow> 1
      | Some choiceConfig \<Rightarrow>
          (if pointsMultiplier choiceConfig = 0 then 1 else pointsMultiplier choiceConfig))"

definition handleDisposalChoice :: "auth \<Rightarrow> world \<Rightarrow> DisposalChoice \<Rightarrow> world \<times> bool option" where
  "handleDisposalChoice a w choice =
     (case lastScannedItem (hook w) of
        None \<Rightarrow> (w, None)
      | Some item \<Rightarrow>
          (let st = stats (hook w);
               multiplier = choice_multiplier (category item) choice;
               final = Math_round (of_int (basePoints item) * multiplier);
               isDiscard = (choice = discard);
               isTrade = (choice = trade);
               newStatus = (if isDiscard then approved else pending);
               updatedItem = item\<lparr>disposalChoice := Some choice, finalPoints := final,
                                   status := newStatus\<rparr>;
               oldLevel = level st;
               newStats = (if isDiscard then
                             st\<lparr>totalPoints := totalPoints st + final,
                                level := calculateLevel (totalPoints st + final),
                                scansToday := scansToday st + 1,
                                itemsRecycled := itemsRecycled st + 1\<rparr>
                           else
                             st\<lparr>scansToday := scansToday st + 1,
                                pendingPoints := pendingPoints st + final\<rparr>);
               h1 = (if isDiscard
                     then checkLevelUp oldLevel (calculateLevel (totalPoints st + final)) (hook w)
                     else hook w);
               newHistory = updatedItem # scanHistory (hook w);
               w1 = (if isGuest a then
                       w\<lparr>storage := saveGuestData newStats newHistory (storage w)\<rparr>
                     else (case user a of
                        Some uid \<Rightarrow>
                          (let (sid, d1) = insert_scan (\<lambda>i. \<lparr>scan_id = i, user_id = uid,
                                        item_name = name updatedItem,
                                        category_col = category updatedItem,
                                        points_col = points updatedItem,
                                        base_points = Some (basePoints updatedItem),
                                        final_points = Some final,
                                        status_col = Some newStatus,
                                        disposal_choice = Some choice\<rparr>) (db w);
                               d2 = (if isDiscard then
                                       update_profile uid
                                         (\<lambda>p. p\<lparr>total_points := Some (totalPoints newStats),
                                                  level_col := Some (level newStats),
                                                  items_recycled := Some (itemsRecycled newStats)\<rparr>) d1
                                     else d1);
                               d3 = (if isTrade then
                                       insert_listing (\<lambda>i. \<lparr>listing_id = i, seller_id = uid,
                                          scan_ref = Some sid, listing_title = name updatedItem,
                                          price_points = final * 2, listing_status = draft\<rparr>) d2
                                     else d2)
                           in w\<lparr>db := d3\<rparr>)
                      | None \<Rightarrow> w))
           in (w1\<lparr>hook := h1\<lparr>lastScannedItem := Some updatedItem, scanHistory := newHistory,
                               stats := newStats\<rparr>\<rparr>,
               Some isTrade)))"

section \<open>Marketplace purchase (useMarketplace)\<close>

text \<open>
  The listing as the page holds it, and the message shown to the user. Each store call
  whose error the code inspects, or whose failure changes what is written, has a flag
  saying whether it fails in this run.
\<close>

record MarketplaceListing =
  ml_id :: ident
  sellerId :: ident
  ml_title :: string
  pricePoints :: int
  ml_status :: ListingStatus

datatype toast =
    toast_please_login
  | toast_own_listing
  | toast_insufficient_points int
  | toast_purchase_complete int
  | toast_purchase_failed

record purchase_faults =
  orderError :: bool
  listingError :: bool
  buyerError :: bool
  sellerSelectError :: bool
  sellerUpdateError :: bool
  notificationError :: bool
  messageError :: bool

text \<open>\<open>x || 0\<close> on a nullable number column.\<close>

definition or0 :: "int option \<Rightarrow> int" where
  "or0 x = (case x of None \<Rightarrow> 0 | Some n \<Rightarrow> n)"

text \<open>
  \<open>select(...).eq('id', uid).single()\<close> and \<open>maybeSingle()\<close> on profiles: the row when
  exactly one matches, no data otherwise.
\<close>

definition single_profile :: "ident \<Rightarrow> database \<Rightarrow> profile option" where
  "single_profile uid d =
     (case filter (\<lambda>p. profile_id p = uid) (profiles d) of [p] \<Rightarrow> Some p | _ \<Rightarrow> None)"

text \<open>
  An account's balance as the pages read it: \<open>select('total_points').eq('id', uid).single()\<close>,
  then \<open>|| 0\<close>.
\<close>

definition balance :: "ident \<Rightarrow> database \<Rightarrow> int option" where
  "balance uid d = map_option (\<lambda>p. or0 (total_points p)) (single_profile uid d)"

definition set_listing_status :: "ident \<Rightarrow> ListingStatus \<Rightarrow> database \<Rightarrow> database" where
  "set_listing_status lid st d =
     d\<lparr>marketplace_listings :=
         map (\<lambda>l. if listing_id l = lid then l\<lparr>listing_status := st\<rparr> else l) (marketplace_listings d)\<rparr>"

definition insert_notification :: "notification \<Rightarrow> database \<Rightarrow> database" where
  "insert_notification n d = d\<lparr>system_notifications := system_notifications d @ [n]\<rparr>"

definition purchaseListing ::
  "ident option \<Rightarrow> purchase_faults \<Rightarrow> database \<Rightarrow> MarketplaceListing \<Rightarrow> int
   \<Rightarrow> (bool \<times> toast) \<times> database" where
  "purchaseListing usr flt d listing buyerPoints =
     (case usr of
        None \<Rightarrow> ((False, toast_please_login), d)
      | Some uid \<Rightarrow>
          if sellerId listing = uid then ((False, toast_own_listing), d)
          else if buyerPoints < pricePoints listing then
            ((False, toast_insufficient_points (pricePoints listing - buyerPoints)), d)
          else if orderError flt then ((False, toast_purchase_failed), d)
          else
            (let d1 = d\<lparr>orders := orders d @
                        [\<lparr>order_listing_id = ml_id listing, buyer_id = uid,
                          order_seller_id = sellerId listing,
                          order_price_points = pricePoints listing,
                          order_status = order_pending\<rparr>]\<rparr>
             in if listingError flt then ((False, toast_purchase_failed), d1)
                else
                  (let d2 = set_listing_status (ml_id listing) sold d1
                   in if buyerError flt then ((False, toast_purchase_failed), d2)
                      else
                        (let d3 = update_profile uid
                                    (\<lambda>p. p\<lparr>total_points := Some (buyerPoints - pricePoints listing)\<rparr>) d2;
                             sellerProfile = (if sellerSelectError flt then None
                                              else single_profile (sellerId listing) d3);
                             d4 = (case sellerProfile of
                                     None \<Rightarrow> d3
                                   | Some sp \<Rightarrow>
                                       if sellerUpdateError flt then d3
                                       else update_profile (sellerId listing)
                                              (\<lambda>p. p\<lparr>total_points :=
                                                   Some (or0 (total_points sp) + pricePoints listing)\<rparr>) d3);
                             d5 = (if notificationError flt then d4
                                   else insert_notification
                                          \<lparr>target_user_id = sellerId listing,
                                           notification_title = ''Your item sold!'',
                                           notification_type = reward\<rparr> d4);
                             d6 = (if messageError flt then d5
                                   else d5\<lparr>messages := messages d5 @
                                          [\<lparr>sender_id = uid, receiver_id = sellerId listing,
                                            message_listing_id = ml_id listing\<rparr>]\<rparr>)
                         in ((True, toast_purchase_complete (pricePoints listing)), d6)))))"

section \<open>Admin review of scans (PendingScansTab)\<close>

record PendingScan =
  ps_id :: ident
  ps_user_id :: ident
  ps_item_name :: string
  ps_final_points :: int
  ps_disposal_choice :: "DisposalChoice option"

text \<open>
  A flag is set when the call returns an error or reports no affected row although a row
  matches (a row-level-security refusal); the code throws in both cases.
\<close>

record review_faults =
  statusUpdateRefused :: bool
  listingLookupError :: bool
  listingInsertRefused :: bool
  profileUpdateRefused :: bool
  notificationRefused :: bool

definition set_scan_status :: "ident \<Rightarrow> ScanStatus \<Rightarrow> database \<Rightarrow> database" where
  "set_scan_status sid st d =
     d\<lparr>scan_history :=
         map (\<lambda>r. if scan_id r = sid then r\<lparr>status_col := Some st\<rparr> else r) (scan_history d)\<rparr>"

text \<open>
  The handlers take the component's \<open>processing\<close> flag with the store and return both.
  A throw after the status update runs the compensating write of the \<open>catch\<close> block.
\<close>

definition handleApprove :: "review_faults \<Rightarrow> bool \<times> database \<Rightarrow> PendingScan \<Rightarrow> bool \<times> database" where
  "handleApprove flt s scan =
     (case s of (processing, d) \<Rightarrow>
        if processing then (processing, d)
        else if statusUpdateRefused flt \<or> filter (\<lambda>r. scan_id r = ps_id scan) (scan_history d) = []
        then (False, d)
        else
          (let d1 = set_scan_status (ps_id scan) approved d;
               rollback = (\<lambda>dx. (False, set_scan_status (ps_id scan) pending dx))
           in if ps_disposal_choice scan = Some trade \<and> listingLookupError flt then rollback d1
              else if ps_disposal_choice scan = Some trade
                      \<and> filter (\<lambda>l. scan_ref l = Some (ps_id scan)) (marketplace_listings d1) = []
                      \<and> listingInsertRefused flt then rollback d1
              else
                (let d2 = (if ps_disposal_choice scan = Some trade
                              \<and> filter (\<lambda>l. scan_ref l = Some (ps_id scan)) (marketplace_listings d1) = []
                           then insert_listing (\<lambda>i. \<lparr>listing_id = i, seller_id = ps_user_id scan,
                                   scan_ref = Some (ps_id scan), listing_title = ps_item_name scan,
                                   price_points = ps_final_points scan, listing_status = draft\<rparr>) d1
                           else d1)
                 in case single_profile (ps_user_id scan) d2 of
                      Some prof \<Rightarrow>
                        if profileUpdateRefused flt then rollback d2
                        else
                          (let newPoints = or0 (total_points prof) + ps_final_points scan;
                               newLevel = newPoints div 100 + 1;
                               d3 = update_profile (ps_user_id scan)
                                      (\<lambda>p. p\<lparr>total_points := Some newPoints, level_col := Some newLevel,
                                               items_recycled := Some (or0 (items_recycled prof) + 1)\<rparr>) d2
                           in if notificationRefused flt then rollback d3
                              else (False, insert_notification
                                      \<lparr>target_user_id = ps_user_id scan,
                                       notification_title = ''Scan Approved!'',
                                       notification_type = reward\<rparr> d3))
                    | None \<Rightarrow>
                        if notificationRefused flt then rollback d2
                        else (False, insert_notification
                                \<lparr>target_user_id = ps_user_id scan,
                                 notification_title = ''Scan Approved!'',
                                 notification_type = reward\<rparr> d2))))"

definition handleReject :: "review_faults \<Rightarrow> bool \<times> database \<Rightarrow> PendingScan \<Rightarrow> bool \<times> database" where
  "handleReject flt s scan =
     (case s of (processing, d) \<Rightarrow>
        if processing then (processing, d)
        else if statusUpdateRefused flt \<or> filter (\<lambda>r. scan_id r = ps_id scan) (scan_history d) = []
        then (False, d)
        else
          (let d1 = set_scan_status (ps_id scan) rejected d
           in if notificationRefused flt then (False, set_scan_status (ps_id scan) pending d1)
              else (False, insert_notification
                      \<lparr>target_user_id = ps_user_id scan, notification_title = ''Scan Rejected'',
                       notification_type = alert\<rparr> d1)))"

section \<open>Admin review of listings (PendingListingsTab)\<close>

record PendingListing =
  pl_id :: ident
  pl_seller_id :: ident
  pl_title :: string

definition review_listing ::
  "ListingStatus \<Rightarrow> string \<Rightarrow> notification_type \<Rightarrow> review_faults \<Rightarrow> bool \<times> database
   \<Rightarrow> PendingListing \<Rightarrow> bool \<times> database" where
  "review_listing target ntitle ntype flt s listing =
     (case s of (processing, d) \<Rightarrow>
        if processing then (processing, d)
        else if statusUpdateRefused flt
                \<or> filter (\<lambda>l. listing_id l = pl_id listing) (marketplace_listings d) = []
        then (False, d)
        else
          (let d1 = set_listing_status (pl_id listing) target d
           in if notificationRefused flt
              then (False, set_listing_status (pl_id listing) pending_review d1)
              else (False, insert_notification
                      \<lparr>target_user_id = pl_seller_id listing, notification_title = ntitle,
                       notification_type = ntype\<rparr> d1)))"

text \<open>
  The two listing handlers differ in the status they write and in the notification only.
\<close>

definition handleApproveListing :: "review_faults \<Rightarrow> bool \<times> database \<Rightarrow> PendingListing \<Rightarrow> bool \<times> database" where
  "handleApproveListing = review_listing active ''Listing Approved!'' reward"

definition handleRejectListing :: "review_faults \<Rightarrow> bool \<times> database \<Rightarrow> PendingListing \<Rightarrow> bool \<times> database" where
  "handleRejectListing = review_listing cancelled ''Listing Rejected'' alert"

section \<open>Guest migration (Auth page)\<close>

text \<open>\<open>x || d\<close> on a number.\<close>

definition int_or :: "int \<Rightarrow> int \<Rightarrow> int" where
  "int_or x d = (if x = 0 then d else x)"

text \<open>
  The bulk insert of the guest history: one row per item, with the columns the code
  supplies; the others are left to the store.
\<close>

definition insert_history :: "ident \<Rightarrow> WasteItem list \<Rightarrow> database \<Rightarrow> database" where
  "insert_history userId history d =
     foldl (\<lambda>dx item. snd (insert_scan (\<lambda>i. \<lparr>scan_id = i, user_id = userId,
                 item_name = name item, category_col = category item, points_col = points item,
                 base_points = None, final_points = None, status_col = None,
                 disposal_choice = None\<rparr>) dx)) d history"

text \<open>
  \<open>migrateGuestData\<close>: an entry that cannot be parsed throws; the \<open>catch\<close> returns
  false and leaves the local entries in place. The answers of the store are not inspected.
\<close>

definition migrateGuestData :: "ident \<Rightarrow> localStorage \<times> database \<Rightarrow> bool \<times> localStorage \<times> database" where
  "migrateGuestData userId s =
     (case s of (ls, d) \<Rightarrow>
        (case guest_stats ls of
           Some Malformed \<Rightarrow> (False, ls, d)
         | savedStats \<Rightarrow>
             (let d1 = (case savedStats of
                          Some (Parsed st) \<Rightarrow>
                            update_profile userId
                              (\<lambda>p. p\<lparr>total_points := Some (int_or (totalPoints st) 0),
                                       level_col := Some (int_or (level st) 1),
                                       streak_col := Some (int_or (streak st) 0),
                                       items_recycled := Some (int_or (itemsRecycled st) 0)\<rparr>) d
                        | _ \<Rightarrow> d)
              in case guest_history ls of
                   Some Malformed \<Rightarrow> (False, ls, d1)
                 | savedHistory \<Rightarrow>
                     (let d2 = (case savedHistory of
                                  Some (Parsed history) \<Rightarrow>
                                    (if history \<noteq> [] then insert_history userId history d1 else d1)
                                | _ \<Rightarrow> d1)
                      in (True, ls\<lparr>guest_stats := None, guest_history := None\<rparr>, d2)))))"

section \<open>Compliance check endpoint (check-listing-compliance)\<close>

text \<open>
  The edge function reads a JSON body, asks up to two AI providers for a verdict, falls
  back to a keyword heuristic when neither answered, normalises the verdict and derives the
  action from the normalised score. The providers are external: their parsed answers are
  inputs of the model (\<open>None\<close> when the key is missing, the call failed or no JSON
  object was found in the answer). The CORS preflight branch, which answers with an empty
  body, is left out.
\<close>

subsection \<open>JavaScript helpers\<close>

text \<open>
  A JavaScript string is a sequence of UTF-16 code units, a list of numbers here;
  \<open>utf16\<close> gives the code units of an ASCII text.
\<close>

definition utf16 :: "string \<Rightarrow> nat list" where
  "utf16 s = map of_char s"

text \<open>
  \<open>parseInt\<close> first converts its argument to a string; the model starts from that string.
  It skips leading white space and line terminators (tab, line feed, vertical tab, form
  feed, carriage return, space, no-break space, the other space separators U+1680,
  U+2000 to U+200A, U+202F, U+205F and U+3000, the line and paragraph separators and the
  byte order mark), reads an optional sign, switches to radix 16 after a \<open>0x\<close> prefix,
  and reads the longest run of digits. No digit at all gives NaN, which is \<open>None\<close>
  here. The value is kept as an exact integer; a run of digits too long for a double gives
  an infinity in JavaScript, which the clamp below maps to the same bound.
\<close>

definition is_ws :: "nat \<Rightarrow> bool" where
  "is_ws u =
     (u \<in> set [0x0009, 0x000A, 0x000B, 0x000C, 0x000D, 0x0020, 0x00A0, 0x1680,
                0x2028, 0x2029, 0x202F, 0x205F, 0x3000, 0xFEFF]
      \<or> (0x2000 \<le> u \<and> u \<le> 0x200A))"

definition digit_val :: "nat \<Rightarrow> nat \<Rightarrow> nat option" where
  "digit_val radix n =
     (let v = (if 48 \<le> n \<and> n \<le> 57 then Some (n - 48)
               else if 97 \<le> n \<and> n \<le> 122 then Some (n - 87)
               else if 65 \<le> n \<and> n \<le> 90 then Some (n - 55)
               else None)
      in case v of None \<Rightarrow> None | Some d \<Rightarrow> (if d < radix then Some d else None))"

fun read_digits :: "nat \<Rightarrow> nat option \<Rightarrow> nat list \<Rightarrow> nat option" where
  "read_digits radix acc [] = acc"
| "read_digits radix acc (c # cs) =
     (case digit_val radix c of
        None \<Rightarrow> acc
      | Some d \<Rightarrow> read_digits radix (Some ((case acc of None \<Rightarrow> 0 | Some a \<Rightarrow> a) * radix + d)) cs)"

definition parseInt :: "nat list \<Rightarrow> int option" where
  "parseInt input =
     (let s = dropWhile is_ws input;
          negative = (case s of c # _ \<Rightarrow> c = of_char CHR ''-'' | [] \<Rightarrow> False);
          s1 = (case s of
                  c # cs \<Rightarrow> (if c = of_char CHR ''+'' \<or> c = of_char CHR ''-'' then cs else s)
                | [] \<Rightarrow> s);
          hex = (take 2 s1 = utf16 ''0x'' \<or> take 2 s1 = utf16 ''0X'');
          s2 = (if hex then drop 2 s1 else s1);
          radix = (if hex then 16 else 10)
      in case read_digits radix None s2 of
           None \<Rightarrow> None
         | Some n \<Rightarrow> Some (if negative then - int n else int n))"

text \<open>\<open>x || d\<close> on a number: NaN and zero are falsy.\<close>

definition num_or :: "int option \<Rightarrow> int \<Rightarrow> int" where
  "num_or x d = (case x of None \<Rightarrow> d | Some n \<Rightarrow> (if n = 0 then d else n))"

definition toLowerCase :: "string \<Rightarrow> string" where
  "toLowerCase s =
     map (\<lambda>c. let n = of_char c :: nat in if 65 \<le> n \<and> n \<le> 90 then char_of (n + 32) else c) s"

fun str_includes :: "string \<Rightarrow> string \<Rightarrow> bool" where
  "str_includes [] w = (w = [])"
| "str_includes (c # cs) w = (take (length w) (c # cs) = w \<or> str_includes cs w)"

subsection \<open>Request, verdict and response\<close>

text \<open>
  A field of the request body is a string, absent (or another falsy value), or some other
  value on which a string method cannot be called.
\<close>

datatype jsfield = Str string | Absent | NonString

record request_body =
  title :: jsfield
  description :: jsfield

text \<open>
  The verdict object \<open>result\<close>: \<open>result_riskScore\<close> is the string form of its
  \<open>riskScore\<close> property, in code units; \<open>result_violations\<close> is \<open>None\<close> when the
  property is not an array, \<open>result_summary\<close> is \<open>None\<close> when the property is missing.
\<close>

record verdict =
  result_riskScore :: "nat list"
  result_violations :: "string list option"
  result_summary :: "string option"

datatype action = auto_approve | needs_review | auto_reject

record response =
  riskScore :: int
  violations :: "string list"
  summary :: string
  action :: action

definition badWords :: "string list" where
  "badWords = [''weapon'', ''gun'', ''drug'', ''stolen'', ''fake'', ''counterfeit'']"

text \<open>
  The heuristic of the handler. Calling \<open>toLowerCase\<close> on a title that is not a string
  throws, as does calling it on a truthy description that is not a string: \<open>None\<close>.
\<close>

definition heuristic :: "request_body \<Rightarrow> verdict option" where
  "heuristic body =
     (case title body of
        Str t \<Rightarrow>
          (case (case description body of Str d \<Rightarrow> Some d | Absent \<Rightarrow> Some [] | NonString \<Rightarrow> None) of
             None \<Rightarrow> None
           | Some d \<Rightarrow>
               (let titleLower = toLowerCase t;
                    descLower = toLowerCase d;
                    combinedText = titleLower @ '' '' @ descLower;
                    hasBadWords = list_ex (\<lambda>word. str_includes combinedText word) badWords
                in Some \<lparr>result_riskScore = utf16 (if hasBadWords then ''7'' else ''2''),
                         result_violations =
                           Some (if hasBadWords then [''Potential policy violation detected''] else []),
                         result_summary =
                           Some (if hasBadWords then ''Manual review recommended''
                                 else ''Looks good, no obvious issues'')\<rparr>))
      | _ \<Rightarrow> None)"

definition normalize_verdict :: "verdict \<Rightarrow> response" where
  "normalize_verdict result =
     (let score = min 10 (max 1 (num_or (parseInt (result_riskScore result)) 2));
          viol = (case result_violations result of Some vs \<Rightarrow> vs | None \<Rightarrow> []);
          act = (if score < 7 then auto_approve
                 else if score \<le> 8 then needs_review
                 else auto_reject)
      in \<lparr>riskScore = score, violations = viol,
          summary = (case result_summary result of
                       None \<Rightarrow> ''Check complete''
                     | Some s \<Rightarrow> (if s = [] then ''Check complete'' else s)),
          action = act\<rparr>)"

definition fail_open :: response where
  "fail_open = \<lparr>riskScore = 2, violations = [],
                 summary = ''Auto-approved (check unavailable)'', action = auto_approve\<rparr>"

text \<open>
  The handler: \<open>req\<close> is \<open>None\<close> when reading the JSON body throws; \<open>gemini\<close> and
  \<open>openai\<close> are the providers' parsed answers. Every exception ends in the outer
  \<open>catch\<close>, which answers \<open>fail_open\<close>.
\<close>

definition serve_handler :: "request_body option \<Rightarrow> verdict option \<Rightarrow> verdict option \<Rightarrow> response" where
  "serve_handler req gemini openai =
     (case req of
        None \<Rightarrow> fail_open
      | Some body \<Rightarrow>
          (case (case gemini of Some r \<Rightarrow> Some r | None \<Rightarrow> openai) of
             Some r \<Rightarrow> normalize_verdict r
           | None \<Rightarrow> (case heuristic body of Some r \<Rightarrow> normalize_verdict r | None \<Rightarrow> fail_open)))"

section \<open>Concrete scenarios\<close>

text \<open>Small concrete states on which the operations are run below.\<close>

definition empty_db :: database where
  "empty_db = \<lparr>scan_history = [], profiles = [], marketplace_listings = [], orders = [],
               system_notifications = [], messages = [], next_id = 0\<rparr>"

definition defaultStats :: UserStats where
  "defaultStats = \<lparr>totalPoints = 0, level = 1, scansToday = 0, streak = 0, itemsRecycled = 0,
                   pendingPoints = 0\<rparr>"

definition guest :: auth where
  "guest = \<lparr>user = None, isGuest = True\<rparr>"

definition scanned :: "WasteCategory \<Rightarrow> int \<Rightarrow> world" where
  "scanned c b =
     \<lparr>hook = \<lparr>stats = defaultStats, scanHistory = [],
               lastScannedItem = Some \<lparr>name = ''item'', category = c, points = b, status = pending,
                                       disposalChoice = None, basePoints = b, finalPoints = b,
                                       isRetry = False\<rparr>,
               showReward = True, showLevelUp = False\<rparr>,
      storage = \<lparr>guest_stats = None, guest_history = None\<rparr>,
      db = empty_db\<rparr>"

definition fresh_world :: world where
  "fresh_world =
     \<lparr>hook = \<lparr>stats = defaultStats, scanHistory = [], lastScannedItem = None,
               showReward = False, showLevelUp = False\<rparr>,
      storage = \<lparr>guest_stats = None, guest_history = None\<rparr>,
      db = empty_db\<rparr>"

definition signed_in :: "ident \<Rightarrow> auth" where
  "signed_in uid = \<lparr>user = Some uid, isGuest = False\<rparr>"

definition member :: "ident \<Rightarrow> int \<Rightarrow> int \<Rightarrow> profile" where
  "member uid pts lvl =
     \<lparr>profile_id = uid, username = None, total_points = Some pts, level_col = Some lvl,
      streak_col = Some 0, items_recycled = Some 0\<rparr>"

definition member_world :: "profile list \<Rightarrow> world" where
  "member_world ps = fresh_world\<lparr>db := empty_db\<lparr>profiles := ps\<rparr>\<rparr>"

definition no_faults :: purchase_faults where
  "no_faults = \<lparr>orderError = False, listingError = False, buyerError = False,
                sellerSelectError = False, sellerUpdateError = False,
                notificationError = False, messageError = False\<rparr>"

definition lamp :: MarketplaceListing where
  "lamp = \<lparr>ml_id = 10, sellerId = 2, ml_title = ''Lamp'', pricePoints = 100, ml_status = active\<rparr>"

definition market_db :: database where
  "market_db = empty_db\<lparr>profiles := [member 1 150 2, member 2 30 1],
                 marketplace_listings := [\<lparr>listing_id = 10, seller_id = 2, scan_ref = None,
                    listing_title = ''Lamp'', price_points = 100, listing_status = active\<rparr>]\<rparr>"

definition sold_lamp :: MarketplaceListing where
  "sold_lamp = lamp\<lparr>ml_status := sold\<rparr>"

definition sold_db :: database where
  "sold_db = empty_db\<lparr>profiles := [member 1 150 2, member 2 30 1],
                 marketplace_listings := [\<lparr>listing_id = 10, seller_id = 2, scan_ref = None,
                    listing_title = ''Lamp'', price_points = 100, listing_status = sold\<rparr>]\<rparr>"

definition review_ok :: review_faults where
  "review_ok = \<lparr>statusUpdateRefused = False, listingLookupError = False,
                listingInsertRefused = False, profileUpdateRefused = False,
                notificationRefused = False\<rparr>"

definition shirt_scan :: PendingScan where
  "shirt_scan = \<lparr>ps_id = 5, ps_user_id = 1, ps_item_name = ''Shirt'', ps_final_points = 20,
                 ps_disposal_choice = Some donate\<rparr>"

definition review_db :: database where
  "review_db = empty_db\<lparr>profiles := [member 1 0 1],
      scan_history := [\<lparr>scan_id = 5, user_id = 1, item_name = ''Shirt'', category_col = clothing,
                        points_col = 10, base_points = Some 10, final_points = Some 20,
                        status_col = Some pending, disposal_choice = Some donate\<rparr>],
      marketplace_listings := [\<lparr>listing_id = 10, seller_id = 1, scan_ref = None,
                    listing_title = ''Lamp'', price_points = 100, listing_status = pending_review\<rparr>]\<rparr>"

definition lamp_review :: PendingListing where
  "lamp_review = \<lparr>pl_id = 10, pl_seller_id = 1, pl_title = ''Lamp''\<rparr>"

definition guest_storage :: localStorage where
  "guest_storage =
     \<lparr>guest_stats = Some (Parsed \<lparr>totalPoints = 120, level = 2, scansToday = 3, streak = 1,
                                   itemsRecycled = 4, pendingPoints = 0\<rparr>),
      guest_history = Some (Parsed [\<lparr>name = ''Can'', category = recyclable, points = 10,
                                     status = approved, disposalChoice = Some discard,
                                     basePoints = 10, finalPoints = 10, isRetry = False\<rparr>])\<rparr>"

definition new_account_db :: database where
  "new_account_db = empty_db\<lparr>profiles := [member 7 35 1]\<rparr>"

section \<open>Properties of the compliance check\<close>

lemma normalize_score_range: "1 \<le> riskScore (normalize_verdict r) \<and> riskScore (normalize_verdict r) \<le> 10"
  by (simp add: normalize_verdict_def Let_def)

lemma normalize_action:
  "action (normalize_verdict r) =
     (if riskScore (normalize_verdict r) < 7 then auto_approve
      else if riskScore (normalize_verdict r) \<le> 8 then needs_review else auto_reject)"
  by (auto simp: normalize_verdict_def Let_def)

lemma fail_open_fields: "riskScore fail_open = 2 \<and> action fail_open = auto_approve"
  by (simp add: fail_open_def)

lemma serve_handler_cases:
  "serve_handler req gm oa = fail_open \<or> (\<exists>r. serve_handler req gm oa = normalize_verdict r)"
  by (auto simp: serve_handler_def split: option.splits)

text \<open>
  Claim C10. The response's riskScore is an integer between 1 and 10, and the action is
  determined by it: auto_approve exactly below 7, needs_review exactly for 7 and 8,
  auto_reject exactly above 8. When the handler's body throws (the request body cannot be
  read, or the heuristic runs on a title that is not a string), the answer is riskScore 2
  with auto_approve.
\<close>

theorem compliance_score_and_action:
  "1 \<le> riskScore (serve_handler req gm oa) \<and> riskScore (serve_handler req gm oa) \<le> 10
   \<and> (action (serve_handler req gm oa) = auto_approve) = (riskScore (serve_handler req gm oa) < 7)
   \<and> (action (serve_handler req gm oa) = needs_review)
       = (7 \<le> riskScore (serve_handler req gm oa) \<and> riskScore (serve_handler req gm oa) \<le> 8)
   \<and> (action (serve_handler req gm oa) = auto_reject) = (8 < riskScore (serve_handler req gm oa))
   \<and> serve_handler None gm oa = fail_open
   \<and> serve_handler (Some \<lparr>title = Absent, description = d\<rparr>) None None = fail_open
   \<and> serve_handler (Some \<lparr>title = NonString, description = d\<rparr>) None None = fail_open
   \<and> serve_handler (Some \<lparr>title = Str t, description = NonString\<rparr>) None None = fail_open
   \<and> riskScore fail_open = 2 \<and> action fail_open = auto_approve"
proof -
  have shape: "serve_handler req gm oa = fail_open \<or> (\<exists>r. serve_handler req gm oa = normalize_verdict r)"
    by (rule serve_handler_cases)
  have main: "1 \<le> riskScore (serve_handler req gm oa) \<and> riskScore (serve_handler req gm oa) \<le> 10
     \<and> (action (serve_handler req gm oa) = auto_approve) = (riskScore (serve_handler req gm oa) < 7)
     \<and> (action (serve_handler req gm oa) = needs_review)
         = (7 \<le> riskScore (serve_handler req gm oa) \<and> riskScore (serve_handler req gm oa) \<le> 8)
     \<and> (action (serve_handler req gm oa) = auto_reject) = (8 < riskScore (serve_handler req gm oa))"
  proof (rule disjE [OF shape])
    assume "serve_handler req gm oa = fail_open"
    then show ?thesis by (simp add: fail_open_def)
  next
    assume "\<exists>r. serve_handler req gm oa = normalize_verdict r"
    then obtain r where r: "serve_handler req gm oa = normalize_verdict r" by blast
    have rng: "1 \<le> riskScore (normalize_verdict r) \<and> riskScore (normalize_verdict r) \<le> 10"
      by (rule normalize_score_range)
    show ?thesis
      unfolding r using rng by (simp add: normalize_action)
  qed
  have fo: "serve_handler None gm oa = fail_open
     \<and> serve_handler (Some \<lparr>title = Absent, description = d\<rparr>) None None = fail_open
     \<and> serve_handler (Some \<lparr>title = NonString, description = d\<rparr>) None None = fail_open
     \<and> serve_handler (Some \<lparr>title = Str t, description = NonString\<rparr>) None None = fail_open"
    by (simp add: serve_handler_def heuristic_def)
  from main fo fail_open_fields show ?thesis by simp
qed

theorem compliance_score_and_action_witness:
  "riskScore (serve_handler (Some \<lparr>title = Str ''Toy gun'', description = Absent\<rparr>) None None) = 7
   \<and> action (serve_handler (Some \<lparr>title = Str ''Toy gun'', description = Absent\<rparr>) None None)
       = needs_review
   \<and> riskScore (serve_handler (Some \<lparr>title = Str ''Lamp'', description = Absent\<rparr>)
        (Some \<lparr>result_riskScore = utf16 ''12'', result_violations = None, result_summary = None\<rparr>)
        None) = 10
   \<and> action (serve_handler (Some \<lparr>title = Str ''Lamp'', description = Absent\<rparr>)
        (Some \<lparr>result_riskScore = utf16 ''12'', result_violations = None, result_summary = None\<rparr>)
        None)
       = auto_reject
   \<and> riskScore (serve_handler (Some \<lparr>title = Str ''Lamp'', description = Absent\<rparr>)
        (Some \<lparr>result_riskScore = 0x00A0 # utf16 ''8'', result_violations = None,
               result_summary = None\<rparr>) None) = 8
   \<and> action (serve_handler (Some \<lparr>title = Str ''Lamp'', description = Absent\<rparr>)
        (Some \<lparr>result_riskScore = 0x00A0 # utf16 ''8'', result_violations = None,
               result_summary = None\<rparr>) None)
       = needs_review"
proof -
  have s1: "riskScore (serve_handler (Some \<lparr>title = Str ''Toy gun'', description = Absent\<rparr>) None None) = 7"
    by (simp add: serve_handler_def heuristic_def normalize_verdict_def parseInt_def num_or_def
        toLowerCase_def badWords_def digit_val_def is_ws_def utf16_def Let_def)
  have s2: "riskScore (serve_handler (Some \<lparr>title = Str ''Lamp'', description = Absent\<rparr>)
        (Some \<lparr>result_riskScore = utf16 ''12'', result_violations = None, result_summary = None\<rparr>)
        None) = 10"
    by (simp add: serve_handler_def normalize_verdict_def parseInt_def num_or_def digit_val_def
        is_ws_def utf16_def Let_def)
  have s3: "riskScore (serve_handler (Some \<lparr>title = Str ''Lamp'', description = Absent\<rparr>)
        (Some \<lparr>result_riskScore = 0x00A0 # utf16 ''8'', result_violations = None,
               result_summary = None\<rparr>) None) = 8"
    by (simp add: serve_handler_def normalize_verdict_def parseInt_def num_or_def digit_val_def
        is_ws_def utf16_def Let_def)
  show ?thesis
    using s1 s2 s3
      compliance_score_and_action [of "Some \<lparr>title = Str ''Toy gun'', description = Absent\<rparr>" None None]
      compliance_score_and_action [of "Some \<lparr>title = Str ''Lamp'', description = Absent\<rparr>"
        "Some \<lparr>result_riskScore = utf16 ''12'', result_violations = None, result_summary = None\<rparr>" None]
      compliance_score_and_action [of "Some \<lparr>title = Str ''Lamp'', description = Absent\<rparr>"
        "Some \<lparr>result_riskScore = 0x00A0 # utf16 ''8'', result_violations = None,
               result_summary = None\<rparr>" None]
    by simp
qed

section \<open>Properties of the store operations\<close>

lemma rewritten_rows:
  assumes "p \<in> set (map (\<lambda>q. if profile_id q = uid then f q else q) ps)"
      and "profile_id p = uid"
      and "\<And>q. profile_id (f q) = profile_id q"
  shows "\<exists>q \<in> set ps. p = f q"
proof -
  from assms(1) obtain q where q: "q \<in> set ps" and pq: "p = (if profile_id q = uid then f q else q)"
    by auto
  show ?thesis
  proof (cases "profile_id q = uid")
    case True
    with pq q show ?thesis by auto
  next
    case False
    with pq have "p = q" by simp
    with False assms(2) show ?thesis by simp
  qed
qed

lemma filter_rewritten:
  assumes "\<And>p. profile_id (f p) = profile_id p"
  shows "filter (\<lambda>p. profile_id p = u) (map (\<lambda>p. if profile_id p = v then f p else p) ps)
       = map (\<lambda>p. if profile_id p = v then f p else p) (filter (\<lambda>p. profile_id p = u) ps)"
  by (induction ps) (simp_all add: assms)

lemma single_profile_update_same:
  assumes "single_profile u d = Some p" and "\<And>q. profile_id (f q) = profile_id q"
  shows "single_profile u (update_profile u f d) = Some (f p)"
proof -
  from assms(1) have one: "filter (\<lambda>p. profile_id p = u) (profiles d) = [p]"
    by (auto simp: single_profile_def split: list.splits)
  then have "p \<in> set (filter (\<lambda>p. profile_id p = u) (profiles d))" by simp
  then have pu: "profile_id p = u" by simp
  show ?thesis
    by (simp add: single_profile_def update_profile_def filter_rewritten [of f, OF assms(2)] one pu)
qed

lemma single_profile_update_other:
  assumes "u \<noteq> v" and "\<And>q. profile_id (f q) = profile_id q"
  shows "single_profile u (update_profile v f d) = single_profile u d"
proof -
  have "map (\<lambda>p. if profile_id p = v then f p else p) (filter (\<lambda>p. profile_id p = u) (profiles d))
      = filter (\<lambda>p. profile_id p = u) (profiles d)"
    using assms(1) by (induction "profiles d" arbitrary: d) (auto intro: map_idI)
  then show ?thesis
    by (simp add: single_profile_def update_profile_def filter_rewritten [of f, OF assms(2)])
qed

section \<open>Properties of the scanner hook\<close>

lemma choice_multiplier_offered:
  "choices (categoryInfo c) = Some cs \<Longrightarrow> cc \<in> set cs
   \<Longrightarrow> choice_multiplier c (choice_value cc) = pointsMultiplier cc"
  by (cases c) (auto simp: choice_multiplier_def)

lemma handle_last_item:
  "lastScannedItem (hook w) = Some item \<Longrightarrow>
   lastScannedItem (hook (fst (handleDisposalChoice a w ch))) =
     Some (item\<lparr>disposalChoice := Some ch,
                finalPoints := Math_round (of_int (basePoints item) * choice_multiplier (category item) ch),
                status := (if ch = discard then approved else pending)\<rparr>)"
  by (simp add: handleDisposalChoice_def Let_def split: prod.splits option.splits)

lemma handle_stats:
  "lastScannedItem (hook w) = Some item \<Longrightarrow>
   stats (hook (fst (handleDisposalChoice a w ch))) =
     (let st = stats (hook w);
          final = Math_round (of_int (basePoints item) * choice_multiplier (category item) ch)
      in if ch = discard then
           st\<lparr>totalPoints := totalPoints st + final,
              level := calculateLevel (totalPoints st + final),
              scansToday := scansToday st + 1,
              itemsRecycled := itemsRecycled st + 1\<rparr>
         else st\<lparr>scansToday := scansToday st + 1, pendingPoints := pendingPoints st + final\<rparr>)"
  by (simp add: handleDisposalChoice_def Let_def split: prod.splits option.splits)

lemma handle_profiles_not_discard:
  "ch \<noteq> discard \<Longrightarrow> profiles (db (fst (handleDisposalChoice a w ch))) = profiles (db w)"
  by (simp add: handleDisposalChoice_def Let_def insert_scan_def insert_listing_def split: prod.splits option.splits)

lemma choice_multiplier_table:
  "choice_multiplier clothing donate = 2 \<and> choice_multiplier clothing trade = 18 / 10
   \<and> choice_multiplier clothing discard = 1
   \<and> choice_multiplier electronics trade = 2 \<and> choice_multiplier electronics recycle = 15 / 10
   \<and> choice_multiplier electronics discard = 5 / 10
   \<and> choice_multiplier compost recycle = 15 / 10 \<and> choice_multiplier compost discard = 1
   \<and> choice_multiplier recyclable trade = 15 / 10 \<and> choice_multiplier recyclable recycle = 15 / 10
   \<and> choice_multiplier recyclable discard = 1
   \<and> choice_multiplier hazardous special = 2"
  by (simp add: choice_multiplier_def)

text \<open>
  Claim C7. For every category and every choice listed for it, applying the choice sets
  finalPoints to the rounding of basePoints times the listed multiplier. The value depends
  on the base points and the table entry only: applying the same choice again, to the
  updated record and under any session, gives the same finalPoints. The table agrees with
  the fixed multipliers (clothing: donate 2, trade 1.8, discard 1; electronics: trade 2,
  recycle 1.5, discard 0.5; compost: recycle 1.5, discard 1; recyclable: trade 1.5,
  recycle 1.5, discard 1; hazardous: special 2).
\<close>

theorem disposal_final_points:
  assumes "lastScannedItem (hook w) = Some item"
      and "choices (categoryInfo (category item)) = Some cs"
      and "cc \<in> set cs"
  shows "map_option finalPoints (lastScannedItem (hook (fst (handleDisposalChoice a w (choice_value cc)))))
           = Some (Math_round (of_int (basePoints item) * pointsMultiplier cc))
       \<and> map_option finalPoints (lastScannedItem (hook (fst (handleDisposalChoice a'
            (fst (handleDisposalChoice a w (choice_value cc))) (choice_value cc)))))
           = Some (Math_round (of_int (basePoints item) * pointsMultiplier cc))
       \<and> pointsMultiplier cc = choice_multiplier (category item) (choice_value cc)
       \<and> choice_multiplier clothing donate = 2 \<and> choice_multiplier clothing trade = 18 / 10
       \<and> choice_multiplier clothing discard = 1
       \<and> choice_multiplier electronics trade = 2 \<and> choice_multiplier electronics recycle = 15 / 10
       \<and> choice_multiplier electronics discard = 5 / 10
       \<and> choice_multiplier compost recycle = 15 / 10 \<and> choice_multiplier compost discard = 1
       \<and> choice_multiplier recyclable trade = 15 / 10 \<and> choice_multiplier recyclable recycle = 15 / 10
       \<and> choice_multiplier recyclable discard = 1
       \<and> choice_multiplier hazardous special = 2"
proof -
  let ?ch = "choice_value cc"
  let ?w1 = "fst (handleDisposalChoice a w ?ch)"
  have m: "choice_multiplier (category item) ?ch = pointsMultiplier cc"
    using assms(2,3) by (rule choice_multiplier_offered)
  have one: "lastScannedItem (hook ?w1) =
     Some (item\<lparr>disposalChoice := Some ?ch,
                finalPoints := Math_round (of_int (basePoints item) * pointsMultiplier cc),
                status := (if ?ch = discard then approved else pending)\<rparr>)"
    using handle_last_item [OF assms(1), of a ?ch] by (simp add: m)
  have two: "map_option finalPoints (lastScannedItem (hook (fst (handleDisposalChoice a' ?w1 ?ch))))
           = Some (Math_round (of_int (basePoints item) * pointsMultiplier cc))"
    using handle_last_item [OF one, of a' ?ch] by (simp add: m)
  from one two m choice_multiplier_table show ?thesis by simp
qed

text \<open>A clothing item of 7 base points traded: \<open>round (7 \<times> 1.8) = 13\<close>, also on repetition.\<close>

theorem disposal_final_points_witness:
  "map_option finalPoints (lastScannedItem (hook (fst (handleDisposalChoice guest (scanned clothing 7) trade))))
     = Some 13
   \<and> map_option finalPoints (lastScannedItem (hook (fst (handleDisposalChoice guest
        (fst (handleDisposalChoice guest (scanned clothing 7) trade)) trade))))
     = Some 13"
proof -
  have i: "lastScannedItem (hook (scanned clothing 7)) =
      Some \<lparr>name = ''item'', category = clothing, points = 7, status = pending,
            disposalChoice = None, basePoints = 7, finalPoints = 7, isRetry = False\<rparr>"
    by (simp add: scanned_def)
  have c: "choices (categoryInfo (category \<lparr>name = ''item'', category = clothing, points = 7,
            status = pending, disposalChoice = None, basePoints = 7, finalPoints = 7,
            isRetry = False\<rparr>)) =
      Some [\<lparr>choice_value = donate, pointsMultiplier = 2, isPrimary = True\<rparr>,
            \<lparr>choice_value = trade, pointsMultiplier = 18 / 10, isPrimary = True\<rparr>,
            \<lparr>choice_value = discard, pointsMultiplier = 1, isPrimary = False\<rparr>]"
    by simp
  have e: "\<lparr>choice_value = trade, pointsMultiplier = 18 / 10, isPrimary = True\<rparr>
      \<in> set [\<lparr>choice_value = donate, pointsMultiplier = 2, isPrimary = True\<rparr>,
              \<lparr>choice_value = trade, pointsMultiplier = 18 / 10, isPrimary = True\<rparr>,
              \<lparr>choice_value = discard, pointsMultiplier = 1, isPrimary = False\<rparr>]"
    by simp
  show ?thesis
    using disposal_final_points [OF i c e, of guest guest] by (simp add: Math_round_def)
qed

text \<open>
  Claim C1, as stated, fails on the handler: it does not check the choice against the
  category's list. Given discard on a hazardous record of 10 base points, the multiplier
  defaults to 1, the record becomes approved and 10 points are credited.
\<close>

theorem hazardous_discard_counterexample:
  "map_option status (lastScannedItem (hook (fst (handleDisposalChoice guest (scanned hazardous 10) discard))))
     = Some approved
   \<and> totalPoints (stats (hook (fst (handleDisposalChoice guest (scanned hazardous 10) discard)))) = 10
   \<and> totalPoints (stats (hook (scanned hazardous 10))) = 0"
  by (simp add: handleDisposalChoice_def scanned_def guest_def defaultStats_def choice_multiplier_def
      Math_round_def calculateLevel_def checkLevelUp_def saveGuestData_def Let_def)

text \<open>
  Claim C1, amended. The only choice listed for a hazardous record is special, so discard is
  never among the choices offered for it; applying a listed choice to a hazardous record
  leaves it pending, credits nothing to totalPoints and leaves every profile row as it was.
\<close>

theorem hazardous_offered_choices:
  assumes "lastScannedItem (hook w) = Some item"
      and "category item = hazardous"
      and "choices (categoryInfo (category item)) = Some cs"
      and "cc \<in> set cs"
  shows "choice_value cc = special
       \<and> map_option status (lastScannedItem (hook (fst (handleDisposalChoice a w (choice_value cc)))))
           = Some pending
       \<and> totalPoints (stats (hook (fst (handleDisposalChoice a w (choice_value cc)))))
           = totalPoints (stats (hook w))
       \<and> profiles (db (fst (handleDisposalChoice a w (choice_value cc)))) = profiles (db w)"
proof -
  have sp: "choice_value cc = special"
    using assms(2,3,4) by auto
  then have nd: "choice_value cc \<noteq> discard" by simp
  have s: "map_option status (lastScannedItem (hook (fst (handleDisposalChoice a w (choice_value cc)))))
           = Some pending"
    using handle_last_item [OF assms(1), of a "choice_value cc"] nd by simp
  have t: "totalPoints (stats (hook (fst (handleDisposalChoice a w (choice_value cc)))))
           = totalPoints (stats (hook w))"
    using handle_stats [OF assms(1), of a "choice_value cc"] nd by (simp add: Let_def)
  from sp s t handle_profiles_not_discard [OF nd] show ?thesis by simp
qed

theorem hazardous_offered_choices_witness:
  "map_option status (lastScannedItem (hook (fst (handleDisposalChoice guest (scanned hazardous 10) special))))
     = Some pending
   \<and> totalPoints (stats (hook (fst (handleDisposalChoice guest (scanned hazardous 10) special)))) = 0"
proof -
  have i: "lastScannedItem (hook (scanned hazardous 10)) =
      Some \<lparr>name = ''item'', category = hazardous, points = 10, status = pending,
            disposalChoice = None, basePoints = 10, finalPoints = 10, isRetry = False\<rparr>"
    by (simp add: scanned_def)
  have k: "category \<lparr>name = ''item'', category = hazardous, points = 10, status = pending,
            disposalChoice = None, basePoints = 10, finalPoints = 10, isRetry = False\<rparr> = hazardous"
    by simp
  have c: "choices (categoryInfo (category \<lparr>name = ''item'', category = hazardous, points = 10,
            status = pending, disposalChoice = None, basePoints = 10, finalPoints = 10,
            isRetry = False\<rparr>)) =
      Some [\<lparr>choice_value = special, pointsMultiplier = 2, isPrimary = True\<rparr>]"
    by simp
  have e: "\<lparr>choice_value = special, pointsMultiplier = 2, isPrimary = True\<rparr>
      \<in> set [\<lparr>choice_value = special, pointsMultiplier = 2, isPrimary = True\<rparr>]"
    by simp
  show ?thesis
    using hazardous_offered_choices [OF i k c e, of guest]
    by (simp add: scanned_def defaultStats_def)
qed

lemma needsChoice_iff: "needsChoice (categoryInfo c) = (c \<noteq> other)"
  by (cases c) simp_all

lemma scan_other_hook:
  "result_category r = other \<Longrightarrow> \<not> result_isRetry r \<Longrightarrow>
   hook (scanWithImage a w r) =
     (let item = \<lparr>name = result_name r, category = other, points = result_points r,
                  status = approved, disposalChoice = Some discard,
                  basePoints = result_points r, finalPoints = result_points r, isRetry = False\<rparr>;
          st = stats (hook w);
          newPoints = totalPoints st + result_points r
      in (checkLevelUp (level st) (calculateLevel newPoints)
           ((hook w)\<lparr>showReward := False, scanHistory := item # scanHistory (hook w),
                stats := st\<lparr>totalPoints := newPoints, level := calculateLevel newPoints,
                              scansToday := scansToday st + 1,
                              itemsRecycled := itemsRecycled st + 1\<rparr>\<rparr>))
         \<lparr>lastScannedItem := Some item, showReward := True\<rparr>)"
  by (simp add: scanWithImage_def Let_def checkLevelUp_def split: option.splits)

lemma scan_other_db:
  "result_category r = other \<Longrightarrow> \<not> result_isRetry r \<Longrightarrow> \<not> isGuest a \<Longrightarrow> user a = Some uid \<Longrightarrow>
   profiles (db (scanWithImage a w r)) =
     map (\<lambda>p. if profile_id p = uid
               then p\<lparr>total_points := Some (totalPoints (stats (hook w)) + result_points r),
                      level_col := Some (calculateLevel (totalPoints (stats (hook w)) + result_points r)),
                      items_recycled := Some (itemsRecycled (stats (hook w)) + 1)\<rparr>
               else p) (profiles (db w))"
  by (simp add: scanWithImage_def Let_def insert_scan_def update_profile_def)

lemma scan_other_profiles:
  assumes "result_category r = other" and "\<not> result_isRetry r"
      and "\<not> isGuest a" and "user a = Some uid"
  shows "\<forall>p \<in> set (profiles (db (scanWithImage a w r))).
      profile_id p = uid \<longrightarrow>
        total_points p = Some (totalPoints (stats (hook w)) + result_points r)
        \<and> level_col p = Some (calculateLevel (totalPoints (stats (hook w)) + result_points r))"
proof (intro ballI impI)
  fix p
  assume p: "p \<in> set (profiles (db (scanWithImage a w r)))" and i: "profile_id p = uid"
  let ?f = "\<lambda>p. p\<lparr>total_points := Some (totalPoints (stats (hook w)) + result_points r),
                      level_col := Some (calculateLevel (totalPoints (stats (hook w)) + result_points r)),
                      items_recycled := Some (itemsRecycled (stats (hook w)) + 1)\<rparr>"
  from p have "p \<in> set (map (\<lambda>q. if profile_id q = uid then ?f q else q) (profiles (db w)))"
    by (simp only: scan_other_db [OF assms])
  then have "\<exists>q \<in> set (profiles (db w)). p = ?f q"
    using i by (rule rewritten_rows) simp
  then obtain q where "p = ?f q" by blast
  then show "total_points p = Some (totalPoints (stats (hook w)) + result_points r)
        \<and> level_col p = Some (calculateLevel (totalPoints (stats (hook w)) + result_points r))"
    by simp
qed

lemma scan_other_guest:
  "result_category r = other \<Longrightarrow> \<not> result_isRetry r \<Longrightarrow> isGuest a \<Longrightarrow>
   storage (scanWithImage a w r) =
     (storage w)\<lparr>guest_stats := Some (Parsed (stats (hook (scanWithImage a w r)))),
                 guest_history := Some (Parsed (scanHistory (hook (scanWithImage a w r))))\<rparr>
   \<and> db (scanWithImage a w r) = db w"
  by (simp add: scanWithImage_def Let_def checkLevelUp_def saveGuestData_def)

lemma scan_other_member:
  "result_category r = other \<Longrightarrow> \<not> result_isRetry r \<Longrightarrow> \<not> isGuest a \<Longrightarrow> user a = Some uid \<Longrightarrow>
   db (scanWithImage a w r) =
     update_profile uid
       (\<lambda>p. p\<lparr>total_points := Some (totalPoints (stats (hook w)) + result_points r),
                level_col := Some (calculateLevel (totalPoints (stats (hook w)) + result_points r)),
                items_recycled := Some (itemsRecycled (stats (hook w)) + 1)\<rparr>)
       ((db w)\<lparr>scan_history := scan_history (db w) @
                  [\<lparr>scan_id = next_id (db w), user_id = uid, item_name = result_name r,
                    category_col = other, points_col = result_points r,
                    base_points = Some (result_points r), final_points = Some (result_points r),
                    status_col = Some approved, disposal_choice = None\<rparr>],
                next_id := Suc (next_id (db w))\<rparr>)
   \<and> storage (scanWithImage a w r) = storage w"
  by (simp add: scanWithImage_def Let_def insert_scan_def)

lemma scan_other_anonymous:
  "result_category r = other \<Longrightarrow> \<not> result_isRetry r \<Longrightarrow> \<not> isGuest a \<Longrightarrow> user a = None \<Longrightarrow>
   db (scanWithImage a w r) = db w \<and> storage (scanWithImage a w r) = storage w"
  by (simp add: scanWithImage_def Let_def)

lemma scan_needs_choice:
  "result_category r \<noteq> other \<Longrightarrow>
   scanWithImage a w r =
     w\<lparr>hook := (hook w)\<lparr>showReward := \<not> result_isRetry r,
          lastScannedItem := Some \<lparr>name = result_name r, category = result_category r,
                     points = result_points r, status = pending, disposalChoice = None,
                     basePoints = result_points r, finalPoints = result_points r,
                     isRetry = result_isRetry r\<rparr>\<rparr>\<rparr>"
  by (simp add: scanWithImage_def Let_def needsChoice_iff)

lemma single_profile_scan_frame:
  "single_profile u (d\<lparr>scan_history := x, next_id := n\<rparr>) = single_profile u d"
  by (simp add: single_profile_def)

lemma scan_other_balance:
  assumes "result_category r = other" and "\<not> result_isRetry r"
      and "\<not> isGuest a" and "user a = Some uid"
      and "balance uid (db w) = Some b"
  shows "balance uid (db (scanWithImage a w r)) = Some (totalPoints (stats (hook w)) + result_points r)"
proof -
  from assms(5) obtain prof where p: "single_profile uid (db w) = Some prof"
    by (auto simp: balance_def)
  let ?f = "\<lambda>p. p\<lparr>total_points := Some (totalPoints (stats (hook w)) + result_points r),
                level_col := Some (calculateLevel (totalPoints (stats (hook w)) + result_points r)),
                items_recycled := Some (itemsRecycled (stats (hook w)) + 1)\<rparr>"
  have q: "single_profile uid ((db w)\<lparr>scan_history := x, next_id := n\<rparr>) = Some prof" for x n
    using p by (simp add: single_profile_scan_frame)
  have "single_profile uid (update_profile uid ?f ((db w)\<lparr>scan_history := x, next_id := n\<rparr>))
          = Some (?f prof)" for x n
    using q by (rule single_profile_update_same) simp
  then show ?thesis
    using scan_other_member [OF assms(1-4), of w]
    by (simp add: balance_def or0_def)
qed


text \<open>
  Claim C9, as stated, fails on its second half: for a category that needs a choice,
  scanning creates no record. After a clothing scan the hook's history, the scan table of
  a signed-in user and the local storage of a guest are as empty as before; the item is
  only held for the choice dialog.
\<close>

theorem scan_needs_choice_counterexample:
  "needsChoice (categoryInfo clothing)
   \<and> scanHistory (hook (scanWithImage (signed_in 1) (member_world [member 1 0 1])
         \<lparr>result_name = ''Shirt'', result_category = clothing, result_points = 10,
          result_isRetry = False\<rparr>)) = []
   \<and> scan_history (db (scanWithImage (signed_in 1) (member_world [member 1 0 1])
         \<lparr>result_name = ''Shirt'', result_category = clothing, result_points = 10,
          result_isRetry = False\<rparr>)) = []
   \<and> scanHistory (hook (scanWithImage guest fresh_world
         \<lparr>result_name = ''Shirt'', result_category = clothing, result_points = 10,
          result_isRetry = False\<rparr>)) = []
   \<and> storage (scanWithImage guest fresh_world
         \<lparr>result_name = ''Shirt'', result_category = clothing, result_points = 10,
          result_isRetry = False\<rparr>) = \<lparr>guest_stats = None, guest_history = None\<rparr>"
  by (simp add: scan_needs_choice member_world_def fresh_world_def empty_db_def)

text \<open>
  Claim C9, amended. The retry outcome, which the classifier marks with \<open>isRetry\<close>, is
  not a classification result. For every classification result of category other, the
  record is created approved with finalPoints = basePoints and is stored: it heads the
  hook's history, and it is written to the guest's local storage or, for a signed-in user,
  to the scan table as an approved row. The points are added to the hook's totalPoints at
  once, the level is recomputed, itemsRecycled grows by one and pendingPoints is
  unchanged. For a signed-in user the profile row is written from the hook's total: the
  stored balance becomes the hook's previous total plus the points, a credit of exactly
  those points when the hook's total was the stored balance. For every result whose
  category needs a choice, no record is created at scan time: the item is held for the
  choice dialog in status pending with finalPoints = basePoints, and the history, the
  statistics (so totalPoints and pendingPoints), the local storage and the store are
  unchanged.
\<close>

theorem scan_initial_status:
  "(result_category r = other \<and> \<not> result_isRetry r \<longrightarrow>
      lastScannedItem (hook (scanWithImage a w r)) = Some \<lparr>name = result_name r, category = other, points = result_points r,
               status = approved, disposalChoice = Some discard,
               basePoints = result_points r, finalPoints = result_points r, isRetry = False\<rparr>
      \<and> scanHistory (hook (scanWithImage a w r)) = \<lparr>name = result_name r, category = other, points = result_points r,
               status = approved, disposalChoice = Some discard,
               basePoints = result_points r, finalPoints = result_points r, isRetry = False\<rparr> # scanHistory (hook w)
      \<and> totalPoints (stats (hook (scanWithImage a w r))) = totalPoints (stats (hook w)) + result_points r
      \<and> level (stats (hook (scanWithImage a w r))) = calculateLevel (totalPoints (stats (hook w)) + result_points r)
      \<and> itemsRecycled (stats (hook (scanWithImage a w r))) = itemsRecycled (stats (hook w)) + 1
      \<and> pendingPoints (stats (hook (scanWithImage a w r))) = pendingPoints (stats (hook w))
      \<and> (isGuest a \<longrightarrow>
           guest_stats (storage (scanWithImage a w r)) = Some (Parsed (stats (hook (scanWithImage a w r))))
           \<and> guest_history (storage (scanWithImage a w r)) = Some (Parsed (scanHistory (hook (scanWithImage a w r))))
           \<and> db (scanWithImage a w r) = db w)
      \<and> (\<not> isGuest a \<and> user a = Some uid \<longrightarrow>
           scan_history (db (scanWithImage a w r)) = scan_history (db w) @ [\<lparr>scan_id = next_id (db w), user_id = uid, item_name = result_name r,
                   category_col = other, points_col = result_points r,
                   base_points = Some (result_points r), final_points = Some (result_points r),
                   status_col = Some approved, disposal_choice = None\<rparr>]
           \<and> storage (scanWithImage a w r) = storage w
           \<and> (\<forall>p \<in> set (profiles (db (scanWithImage a w r))). profile_id p = uid \<longrightarrow>
               total_points p = Some (totalPoints (stats (hook w)) + result_points r)
               \<and> level_col p = Some (calculateLevel (totalPoints (stats (hook w)) + result_points r)))
           \<and> (balance uid (db w) = Some b \<longrightarrow>
               balance uid (db (scanWithImage a w r)) = Some (totalPoints (stats (hook w)) + result_points r))))
   \<and> (needsChoice (categoryInfo (result_category r)) \<longrightarrow>
      lastScannedItem (hook (scanWithImage a w r)) = Some \<lparr>name = result_name r, category = result_category r,
               points = result_points r, status = pending, disposalChoice = None,
               basePoints = result_points r, finalPoints = result_points r,
               isRetry = result_isRetry r\<rparr>
      \<and> scanHistory (hook (scanWithImage a w r)) = scanHistory (hook w)
      \<and> stats (hook (scanWithImage a w r)) = stats (hook w)
      \<and> storage (scanWithImage a w r) = storage w \<and> db (scanWithImage a w r) = db w)"
proof -
  have first:
    "lastScannedItem (hook (scanWithImage a w r)) = Some \<lparr>name = result_name r, category = other, points = result_points r,
               status = approved, disposalChoice = Some discard,
               basePoints = result_points r, finalPoints = result_points r, isRetry = False\<rparr>
      \<and> scanHistory (hook (scanWithImage a w r)) = \<lparr>name = result_name r, category = other, points = result_points r,
               status = approved, disposalChoice = Some discard,
               basePoints = result_points r, finalPoints = result_points r, isRetry = False\<rparr> # scanHistory (hook w)
      \<and> totalPoints (stats (hook (scanWithImage a w r))) = totalPoints (stats (hook w)) + result_points r
      \<and> level (stats (hook (scanWithImage a w r))) = calculateLevel (totalPoints (stats (hook w)) + result_points r)
      \<and> itemsRecycled (stats (hook (scanWithImage a w r))) = itemsRecycled (stats (hook w)) + 1
      \<and> pendingPoints (stats (hook (scanWithImage a w r))) = pendingPoints (stats (hook w))"
    if c: "result_category r = other" and n: "\<not> result_isRetry r"
    unfolding scan_other_hook [OF c n, of a w] by (simp add: Let_def checkLevelUp_def)
  have g: "guest_stats (storage (scanWithImage a w r)) = Some (Parsed (stats (hook (scanWithImage a w r))))
           \<and> guest_history (storage (scanWithImage a w r)) = Some (Parsed (scanHistory (hook (scanWithImage a w r))))
           \<and> db (scanWithImage a w r) = db w"
    if c: "result_category r = other" and n: "\<not> result_isRetry r" and ig: "isGuest a"
    using scan_other_guest [OF c n ig, of w] by simp
  have m12: "scan_history (db (scanWithImage a w r)) = scan_history (db w) @ [\<lparr>scan_id = next_id (db w), user_id = uid, item_name = result_name r,
                   category_col = other, points_col = result_points r,
                   base_points = Some (result_points r), final_points = Some (result_points r),
                   status_col = Some approved, disposal_choice = None\<rparr>]
           \<and> storage (scanWithImage a w r) = storage w"
    if c: "result_category r = other" and n: "\<not> result_isRetry r"
      and ng: "\<not> isGuest a" and u: "user a = Some uid"
    using scan_other_member [OF c n ng u, of w] by (simp add: update_profile_def)
  have m3: "(\<forall>p \<in> set (profiles (db (scanWithImage a w r))). profile_id p = uid \<longrightarrow>
               total_points p = Some (totalPoints (stats (hook w)) + result_points r)
               \<and> level_col p = Some (calculateLevel (totalPoints (stats (hook w)) + result_points r)))"
    if c: "result_category r = other" and n: "\<not> result_isRetry r"
      and ng: "\<not> isGuest a" and u: "user a = Some uid"
    using c n ng u by (rule scan_other_profiles)
  have m4: "(balance uid (db w) = Some b \<longrightarrow>
               balance uid (db (scanWithImage a w r)) = Some (totalPoints (stats (hook w)) + result_points r))"
    if c: "result_category r = other" and n: "\<not> result_isRetry r"
      and ng: "\<not> isGuest a" and u: "user a = Some uid"
    using scan_other_balance [OF c n ng u] by blast
  have second: "lastScannedItem (hook (scanWithImage a w r)) = Some \<lparr>name = result_name r, category = result_category r,
               points = result_points r, status = pending, disposalChoice = None,
               basePoints = result_points r, finalPoints = result_points r,
               isRetry = result_isRetry r\<rparr>
      \<and> scanHistory (hook (scanWithImage a w r)) = scanHistory (hook w)
      \<and> stats (hook (scanWithImage a w r)) = stats (hook w)
      \<and> storage (scanWithImage a w r) = storage w \<and> db (scanWithImage a w r) = db w"
    if "needsChoice (categoryInfo (result_category r))"
  proof -
    from that have c: "result_category r \<noteq> other" by (simp add: needsChoice_iff)
    show ?thesis unfolding scan_needs_choice [OF c, of a w] by simp
  qed
  from first g m12 m3 m4 second show ?thesis by blast
qed

text \<open>
  An 8-point tissue scanned by a guest and by member 1 (stored balance 0), and a 10-point
  shirt scanned by a guest.
\<close>

theorem scan_initial_status_witness:
  "totalPoints (stats (hook (scanWithImage guest fresh_world
         \<lparr>result_name = ''Tissue'', result_category = other, result_points = 8,
          result_isRetry = False\<rparr>))) = 8
   \<and> itemsRecycled (stats (hook (scanWithImage guest fresh_world
         \<lparr>result_name = ''Tissue'', result_category = other, result_points = 8,
          result_isRetry = False\<rparr>))) = 1
   \<and> map_option status (lastScannedItem (hook (scanWithImage guest fresh_world
         \<lparr>result_name = ''Tissue'', result_category = other, result_points = 8,
          result_isRetry = False\<rparr>))) = Some approved
   \<and> map status_col (scan_history (db (scanWithImage (signed_in 1) (member_world [member 1 0 1])
         \<lparr>result_name = ''Tissue'', result_category = other, result_points = 8,
          result_isRetry = False\<rparr>))) = [Some approved]
   \<and> balance 1 (db (member_world [member 1 0 1])) = Some 0
   \<and> balance 1 (db (scanWithImage (signed_in 1) (member_world [member 1 0 1])
         \<lparr>result_name = ''Tissue'', result_category = other, result_points = 8,
          result_isRetry = False\<rparr>)) = Some 8
   \<and> map_option status (lastScannedItem (hook (scanWithImage guest fresh_world
         \<lparr>result_name = ''Shirt'', result_category = clothing, result_points = 10,
          result_isRetry = False\<rparr>))) = Some pending
   \<and> stats (hook (scanWithImage guest fresh_world
         \<lparr>result_name = ''Shirt'', result_category = clothing, result_points = 10,
          result_isRetry = False\<rparr>)) = defaultStats"
proof -
  have b: "balance 1 (db (member_world [member 1 0 1])) = Some 0"
    by (simp add: balance_def single_profile_def or0_def member_world_def member_def empty_db_def)
  have u: "\<not> isGuest (signed_in 1) \<and> user (signed_in 1) = Some 1" "isGuest guest"
    by (simp_all add: signed_in_def guest_def)
  have h: "totalPoints (stats (hook fresh_world)) = 0" "itemsRecycled (stats (hook fresh_world)) = 0"
    "stats (hook fresh_world) = defaultStats"
    "totalPoints (stats (hook (member_world [member 1 0 1]))) = 0"
    "scan_history (db (member_world [member 1 0 1])) = []"
    by (simp_all add: fresh_world_def member_world_def defaultStats_def empty_db_def)
  show ?thesis
    using
      scan_initial_status [where r = "\<lparr>result_name = ''Tissue'', result_category = other, result_points = 8,
          result_isRetry = False\<rparr>"
         and a = "signed_in 1" and uid = 1 and b = 0 and w = "member_world [member 1 0 1]"]
      scan_initial_status [where r = "\<lparr>result_name = ''Tissue'', result_category = other, result_points = 8,
          result_isRetry = False\<rparr>"
         and a = guest and w = fresh_world]
      scan_initial_status [where r = "\<lparr>result_name = ''Shirt'', result_category = clothing, result_points = 10,
          result_isRetry = False\<rparr>"
         and a = guest and w = fresh_world]
      b u h
    by simp
qed

section \<open>Properties of the marketplace purchase\<close>

lemma single_profile_frame:
  "single_profile u (d\<lparr>orders := x\<rparr>) = single_profile u d"
  "single_profile u (set_listing_status lid st d) = single_profile u d"
  "single_profile u (insert_notification n d) = single_profile u d"
  "single_profile u (d\<lparr>messages := y\<rparr>) = single_profile u d"
  by (simp_all add: single_profile_def set_listing_status_def insert_notification_def)

lemma update_profile_frame:
  "orders (update_profile u f d) = orders d"
  "marketplace_listings (update_profile u f d) = marketplace_listings d"
  "orders (set_listing_status lid st d) = orders d"
  "orders (insert_notification n d) = orders d"
  "marketplace_listings (insert_notification n d) = marketplace_listings d"
  by (simp_all add: update_profile_def set_listing_status_def insert_notification_def)

lemma purchase_result:
  assumes "usr = Some uid" and "sellerId l \<noteq> uid" and "pricePoints l \<le> bp"
      and "\<not> orderError flt" and "\<not> listingError flt" and "\<not> buyerError flt"
  shows "fst (purchaseListing usr flt d l bp) = (True, toast_purchase_complete (pricePoints l))"
  using assms by (simp add: purchaseListing_def Let_def)

lemma purchase_orders:
  assumes "usr = Some uid" and "sellerId l \<noteq> uid" and "pricePoints l \<le> bp"
      and "\<not> orderError flt" and "\<not> listingError flt" and "\<not> buyerError flt"
  shows "orders (snd (purchaseListing usr flt d l bp)) =
           orders d @ [\<lparr>order_listing_id = ml_id l, buyer_id = uid, order_seller_id = sellerId l,
                        order_price_points = pricePoints l, order_status = order_pending\<rparr>]"
  using assms
  by (simp add: purchaseListing_def Let_def update_profile_frame split: option.splits)

lemma purchase_listings:
  assumes "usr = Some uid" and "sellerId l \<noteq> uid" and "pricePoints l \<le> bp"
      and "\<not> orderError flt" and "\<not> listingError flt" and "\<not> buyerError flt"
  shows "marketplace_listings (snd (purchaseListing usr flt d l bp)) =
           map (\<lambda>r. if listing_id r = ml_id l then r\<lparr>listing_status := sold\<rparr> else r)
             (marketplace_listings d)"
  using assms
  by (simp add: purchaseListing_def Let_def update_profile_frame split: option.splits)
     (simp add: set_listing_status_def)

lemma purchase_buyer:
  assumes "usr = Some uid" and "sellerId l \<noteq> uid" and "pricePoints l \<le> bp"
      and "\<not> orderError flt" and "\<not> listingError flt" and "\<not> buyerError flt"
      and "single_profile uid d = Some bprof"
  shows "single_profile uid (snd (purchaseListing usr flt d l bp)) =
           Some (bprof\<lparr>total_points := Some (bp - pricePoints l)\<rparr>)"
proof -
  let ?f = "\<lambda>p. p\<lparr>total_points := Some (bp - pricePoints l)\<rparr>"
  have b: "single_profile uid (update_profile uid ?f d) = Some (?f bprof)"
    using assms(7) by (rule single_profile_update_same) simp
  have u: "uid \<noteq> sellerId l" using assms(2) by simp
  have o: "\<And>g dx. single_profile uid (update_profile (sellerId l) (\<lambda>p. p\<lparr>total_points := g\<rparr>) dx)
              = single_profile uid dx"
    using u by (rule single_profile_update_other) simp
  have f: "\<And>x. single_profile uid (update_profile uid ?f (set_listing_status (ml_id l) sold (d\<lparr>orders := x\<rparr>)))
      = Some (?f bprof)"
    using b by (simp add: single_profile_def update_profile_def set_listing_status_def)
  show ?thesis
    using assms(1-6)
    by (simp add: purchaseListing_def Let_def single_profile_frame o f split: option.splits)
qed

lemma purchase_seller:
  assumes "usr = Some uid" and "sellerId l \<noteq> uid" and "pricePoints l \<le> bp"
      and "\<not> orderError flt" and "\<not> listingError flt" and "\<not> buyerError flt"
      and "\<not> sellerSelectError flt" and "\<not> sellerUpdateError flt"
      and "single_profile (sellerId l) d = Some sprof"
  shows "single_profile (sellerId l) (snd (purchaseListing usr flt d l bp)) =
           Some (sprof\<lparr>total_points := Some (or0 (total_points sprof) + pricePoints l)\<rparr>)"
proof -
  let ?f = "\<lambda>p. p\<lparr>total_points := Some (bp - pricePoints l)\<rparr>"
  let ?g = "\<lambda>p. p\<lparr>total_points := Some (or0 (total_points sprof) + pricePoints l)\<rparr>"
  have o: "\<And>dx. single_profile (sellerId l) (update_profile uid ?f dx) = single_profile (sellerId l) dx"
    using assms(2) by (rule single_profile_update_other) simp
  have s3: "\<And>x. single_profile (sellerId l)
        (update_profile uid ?f (set_listing_status (ml_id l) sold (d\<lparr>orders := x\<rparr>))) = Some sprof"
    using assms(9) by (simp add: o single_profile_frame)
  have s4: "\<And>x. single_profile (sellerId l) (update_profile (sellerId l) ?g
        (update_profile uid ?f (set_listing_status (ml_id l) sold (d\<lparr>orders := x\<rparr>)))) = Some (?g sprof)"
    using s3 by (rule single_profile_update_same) simp
  show ?thesis
    using assms(1-8)
    by (simp add: purchaseListing_def Let_def single_profile_frame s3 s4)
qed

lemmas scenario_defs = market_db_def empty_db_def member_def lamp_def no_faults_def

lemmas purchase_defs = purchaseListing_def update_profile_def single_profile_def
  set_listing_status_def insert_notification_def or0_def Let_def

text \<open>
  Claim C2, as stated, fails on its last clause: a purchase that succeeds leaves its Order
  in status pending. No code path writes completed.
\<close>

theorem purchase_order_stays_pending_counterexample:
  "fst (purchaseListing (Some 1) no_faults market_db lamp 150) = (True, toast_purchase_complete 100)
   \<and> map order_status (orders (snd (purchaseListing (Some 1) no_faults market_db lamp 150)))
       = [order_pending]"
  by (simp add: purchase_defs scenario_defs)

text \<open>
  Claim C2, amended. Let the buyer be signed in and not the seller, let the points passed
  by the page be the buyer's stored balance and at least the price, and let the order
  insert, the listing update, the buyer update and the read and update of the seller's row
  go through. Then the purchase succeeds, the buyer's balance falls by exactly the price,
  the seller's balance rises by exactly the price (their sum is unchanged), every row of
  the listing has status sold, and exactly one Order is added for the listing, in status
  pending.
\<close>

theorem purchase_success_effects:
  assumes "usr = Some uid" and "sellerId l \<noteq> uid" and "pricePoints l \<le> bp"
      and "balance uid d = Some bp"
      and "balance (sellerId l) d = Some sp"
      and "\<not> orderError flt" and "\<not> listingError flt" and "\<not> buyerError flt"
      and "\<not> sellerSelectError flt" and "\<not> sellerUpdateError flt"
  shows "fst (purchaseListing usr flt d l bp) = (True, toast_purchase_complete (pricePoints l))
       \<and> balance uid (snd (purchaseListing usr flt d l bp)) = Some (bp - pricePoints l)
       \<and> balance (sellerId l) (snd (purchaseListing usr flt d l bp)) = Some (sp + pricePoints l)
       \<and> (\<forall>r \<in> set (marketplace_listings (snd (purchaseListing usr flt d l bp))).
             listing_id r = ml_id l \<longrightarrow> listing_status r = sold)
       \<and> orders (snd (purchaseListing usr flt d l bp)) =
             orders d @ [\<lparr>order_listing_id = ml_id l, buyer_id = uid, order_seller_id = sellerId l,
                          order_price_points = pricePoints l, order_status = order_pending\<rparr>]"
proof -
  from assms(4) obtain bprof where bp: "single_profile uid d = Some bprof"
    by (auto simp: balance_def)
  from assms(5) obtain sprof where sp: "single_profile (sellerId l) d = Some sprof"
    and spv: "or0 (total_points sprof) = sp"
    by (auto simp: balance_def)
  note ok = assms(1-3) assms(6-8)
  have r: "fst (purchaseListing usr flt d l bp) = (True, toast_purchase_complete (pricePoints l))"
    using ok by (rule purchase_result)
  have b: "balance uid (snd (purchaseListing usr flt d l bp)) = Some (bp - pricePoints l)"
    unfolding balance_def purchase_buyer [OF ok bp] by (simp add: or0_def)
  have s: "balance (sellerId l) (snd (purchaseListing usr flt d l bp)) = Some (sp + pricePoints l)"
    unfolding balance_def purchase_seller [OF ok assms(9,10) sp] using spv by (simp add: or0_def)
  have m: "\<forall>r \<in> set (marketplace_listings (snd (purchaseListing usr flt d l bp))).
             listing_id r = ml_id l \<longrightarrow> listing_status r = sold"
    unfolding purchase_listings [OF ok] by auto
  from r b s m purchase_orders [OF ok] show ?thesis by simp
qed

text \<open>Buyer 1 with 150 points buys the 100-point lamp of seller 2, who has 30.\<close>

theorem purchase_success_effects_witness:
  "fst (purchaseListing (Some 1) no_faults market_db lamp 150) = (True, toast_purchase_complete 100)
   \<and> balance 1 (snd (purchaseListing (Some 1) no_faults market_db lamp 150)) = Some 50
   \<and> balance 2 (snd (purchaseListing (Some 1) no_faults market_db lamp 150)) = Some 130
   \<and> balance 1 market_db = Some 150 \<and> balance 2 market_db = Some 30"
proof -
  have b1: "balance 1 market_db = Some 150" and b2: "balance (sellerId lamp) market_db = Some 30"
    by (simp_all add: balance_def single_profile_def or0_def scenario_defs)
  have f: "\<not> orderError no_faults" "\<not> listingError no_faults" "\<not> buyerError no_faults"
    "\<not> sellerSelectError no_faults" "\<not> sellerUpdateError no_faults"
    by (simp_all add: no_faults_def)
  have p: "sellerId lamp \<noteq> 1" "pricePoints lamp \<le> 150" by (simp_all add: lamp_def)
  have "sellerId lamp = 2" "pricePoints lamp = 100" by (simp_all add: lamp_def)
  with purchase_success_effects [OF refl p b1 b2 f] b1 b2 show ?thesis by simp
qed

text \<open>
  Claim C3, as stated, fails on the status precondition: a listing that is already sold,
  in the page's copy and in the store, is bought again. The call succeeds, adds an Order
  and moves the points.
\<close>

theorem purchase_sold_listing_counterexample:
  "ml_status sold_lamp = sold
   \<and> map listing_status (marketplace_listings sold_db) = [sold]
   \<and> fst (purchaseListing (Some 1) no_faults sold_db sold_lamp 150)
       = (True, toast_purchase_complete 100)
   \<and> map order_status (orders (snd (purchaseListing (Some 1) no_faults sold_db sold_lamp 150)))
       = [order_pending]
   \<and> map total_points (profiles (snd (purchaseListing (Some 1) no_faults sold_db sold_lamp 150)))
       = [Some 50, Some 130]"
  by (simp add: purchase_defs scenario_defs sold_db_def sold_lamp_def)

text \<open>
  Claim C3, amended. \<open>purchaseListing\<close> checks, in this order, that a user is signed
  in, that the buyer is not the seller, and that the points passed are at least the price.
  For every input violating one of them the call returns false with the matching message
  and writes nothing: the store is returned as it was. The listing's status is not checked.
\<close>

theorem purchase_precondition_no_write:
  "(usr = None \<longrightarrow> purchaseListing usr flt d l bp = ((False, toast_please_login), d))
   \<and> (usr = Some (sellerId l) \<longrightarrow> purchaseListing usr flt d l bp = ((False, toast_own_listing), d))
   \<and> (usr = Some uid \<and> sellerId l \<noteq> uid \<and> bp < pricePoints l \<longrightarrow>
        purchaseListing usr flt d l bp = ((False, toast_insufficient_points (pricePoints l - bp)), d))"
  by (simp add: purchaseListing_def)

text \<open>No user, the seller as buyer, and a buyer with 50 points for a 100-point listing.\<close>

theorem purchase_precondition_no_write_witness:
  "purchaseListing None no_faults market_db lamp 150 = ((False, toast_please_login), market_db)
   \<and> purchaseListing (Some 2) no_faults market_db lamp 150 = ((False, toast_own_listing), market_db)
   \<and> purchaseListing (Some 1) no_faults market_db lamp 50
        = ((False, toast_insufficient_points 50), market_db)"
  using purchase_precondition_no_write [of None no_faults market_db lamp 150 1]
    purchase_precondition_no_write [of "Some 2" no_faults market_db lamp 150 1]
    purchase_precondition_no_write [of "Some 1" no_faults market_db lamp 50 1]
  by (simp add: lamp_def)

text \<open>
  Claim C4 on the code. When the buyer update fails, the call returns false and leaves the
  Order (pending) and the sold listing in place: nothing is rolled back. When the update of
  the seller's row fails, the error is not inspected: the call succeeds with the buyer
  debited and the seller not credited.
\<close>

theorem purchase_failure_not_rolled_back:
  "purchaseListing (Some 1) (no_faults\<lparr>buyerError := True\<rparr>) market_db lamp 150 =
     ((False, toast_purchase_failed),
      market_db\<lparr>orders := [\<lparr>order_listing_id = 10, buyer_id = 1, order_seller_id = 2,
                             order_price_points = 100, order_status = order_pending\<rparr>],
                marketplace_listings := [\<lparr>listing_id = 10, seller_id = 2, scan_ref = None,
                    listing_title = ''Lamp'', price_points = 100, listing_status = sold\<rparr>]\<rparr>)
   \<and> fst (purchaseListing (Some 1) (no_faults\<lparr>sellerUpdateError := True\<rparr>) market_db lamp 150)
       = (True, toast_purchase_complete 100)
   \<and> map total_points
        (profiles (snd (purchaseListing (Some 1) (no_faults\<lparr>sellerUpdateError := True\<rparr>) market_db lamp 150)))
       = [Some 50, Some 30]"
  by (simp add: purchase_defs scenario_defs)

text \<open>
  Claim C6 on the code. A purchase writes \<open>total_points\<close> only. After buyer 1 (150
  points, level 2) buys the 100-point lamp of seller 2 (30 points, level 1), the buyer has
  50 points at level 2 and the seller 130 points at level 1, while \<open>calculateLevel\<close>
  gives 1 and 2.
\<close>

theorem purchase_leaves_level_stale:
  "map total_points (profiles (snd (purchaseListing (Some 1) no_faults market_db lamp 150)))
     = [Some 50, Some 130]
   \<and> map level_col (profiles (snd (purchaseListing (Some 1) no_faults market_db lamp 150)))
     = [Some 2, Some 1]
   \<and> calculateLevel 50 = 1 \<and> calculateLevel 130 = 2"
  by (simp add: purchase_defs scenario_defs calculateLevel_def)

section \<open>Properties of the admin review\<close>

lemmas review_defs = handleApprove_def handleReject_def handleApproveListing_def
  handleRejectListing_def review_listing_def set_scan_status_def set_listing_status_def
  insert_notification_def insert_listing_def update_profile_def single_profile_def or0_def Let_def

lemmas review_scenario_defs = review_ok_def shirt_scan_def review_db_def lamp_review_def
  empty_db_def member_def

text \<open>
  Claim C5, as stated, fails: the updates are keyed on the record's id, not on its status.
  Approving the same scan again after the first approval has finished credits its 20 points
  a second time; approving a listing after it was rejected makes it active.
\<close>

theorem repeated_approve_counterexample:
  "map status_col (scan_history (snd (handleApprove review_ok (False, review_db) shirt_scan)))
     = [Some approved]
   \<and> map total_points (profiles (snd (handleApprove review_ok (False, review_db) shirt_scan)))
     = [Some 20]
   \<and> map total_points (profiles (snd (handleApprove review_ok
        (handleApprove review_ok (False, review_db) shirt_scan) shirt_scan)))
     = [Some 40]
   \<and> map listing_status (marketplace_listings (snd (handleRejectListing review_ok
        (False, review_db) lamp_review)))
     = [cancelled]
   \<and> map listing_status (marketplace_listings (snd (handleApproveListing review_ok
        (handleRejectListing review_ok (False, review_db) lamp_review) lamp_review)))
     = [active]"
  by (simp add: review_defs review_scenario_defs)

lemma single_profile_review_frame:
  "single_profile u (set_scan_status sid st d) = single_profile u d"
  "single_profile u (insert_listing mk d) = single_profile u d"
  by (simp_all add: single_profile_def set_scan_status_def insert_listing_def)

lemma approve_credits:
  assumes "\<not> statusUpdateRefused flt"
      and "filter (\<lambda>r. scan_id r = ps_id scan) (scan_history d) \<noteq> []"
      and "\<not> listingLookupError flt" and "\<not> listingInsertRefused flt"
      and "\<not> profileUpdateRefused flt"
      and "single_profile (ps_user_id scan) d = Some prof"
  shows "single_profile (ps_user_id scan) (snd (handleApprove flt (False, d) scan)) =
     Some (prof\<lparr>total_points := Some (or0 (total_points prof) + ps_final_points scan),
                level_col := Some (calculateLevel (or0 (total_points prof) + ps_final_points scan)),
                items_recycled := Some (or0 (items_recycled prof) + 1)\<rparr>)"
proof -
  let ?g = "\<lambda>p. p\<lparr>total_points := Some (or0 (total_points prof) + ps_final_points scan),
                level_col := Some ((or0 (total_points prof) + ps_final_points scan) div 100 + 1),
                items_recycled := Some (or0 (items_recycled prof) + 1)\<rparr>"
  have u: "\<And>dx. single_profile (ps_user_id scan) dx = Some prof \<Longrightarrow>
     single_profile (ps_user_id scan) (update_profile (ps_user_id scan) ?g dx) = Some (?g prof)"
    by (rule single_profile_update_same) simp_all
  show ?thesis
    using assms
    by (simp add: handleApprove_def Let_def single_profile_review_frame single_profile_frame u
        calculateLevel_def)
qed

text \<open>
  Claim C5, amended. Every approve and reject handler of the review queue, for scans and
  for listings, is guarded on the component's \<open>processing\<close> flag: a call made while
  another is being processed changes nothing. One approval of a scan whose row exists, with
  the writes up to the profile update going through, adds final_points to the owner's
  balance once.
\<close>

theorem review_guarded_by_processing:
  "handleApprove flt (True, d) scan = (True, d)
   \<and> handleReject flt (True, d) scan = (True, d)
   \<and> handleApproveListing flt (True, d) listing = (True, d)
   \<and> handleRejectListing flt (True, d) listing = (True, d)
   \<and> (\<not> statusUpdateRefused flt \<and> ps_id scan \<in> set (map scan_id (scan_history d))
        \<and> \<not> listingLookupError flt \<and> \<not> listingInsertRefused flt \<and> \<not> profileUpdateRefused flt
        \<and> balance (ps_user_id scan) d = Some b
      \<longrightarrow> balance (ps_user_id scan) (snd (handleApprove flt (False, d) scan))
            = Some (b + ps_final_points scan))"
proof -
  have g: "handleApprove flt (True, d) scan = (True, d)
   \<and> handleReject flt (True, d) scan = (True, d)
   \<and> handleApproveListing flt (True, d) listing = (True, d)
   \<and> handleRejectListing flt (True, d) listing = (True, d)"
    by (simp add: handleApprove_def handleReject_def handleApproveListing_def
        handleRejectListing_def review_listing_def)
  have c: "balance (ps_user_id scan) (snd (handleApprove flt (False, d) scan))
            = Some (b + ps_final_points scan)"
    if h: "\<not> statusUpdateRefused flt \<and> ps_id scan \<in> set (map scan_id (scan_history d))
        \<and> \<not> listingLookupError flt \<and> \<not> listingInsertRefused flt \<and> \<not> profileUpdateRefused flt
        \<and> balance (ps_user_id scan) d = Some b"
  proof -
    from h obtain prof where p: "single_profile (ps_user_id scan) d = Some prof"
      and pv: "or0 (total_points prof) = b"
      by (auto simp: balance_def)
    from h have ne: "filter (\<lambda>r. scan_id r = ps_id scan) (scan_history d) \<noteq> []"
      by (auto simp: filter_empty_conv)
    from h have f: "\<not> statusUpdateRefused flt" "\<not> listingLookupError flt"
      "\<not> listingInsertRefused flt" "\<not> profileUpdateRefused flt" by simp_all
    show ?thesis
      unfolding balance_def approve_credits [OF f(1) ne f(2,3,4) p] using pv by (simp add: or0_def)
  qed
  from g c show ?thesis by blast
qed

text \<open>The shirt scan of 20 points, owner at 0 points.\<close>

theorem review_guarded_by_processing_witness:
  "handleApprove review_ok (True, review_db) shirt_scan = (True, review_db)
   \<and> balance 1 review_db = Some 0
   \<and> balance 1 (snd (handleApprove review_ok (False, review_db) shirt_scan)) = Some 20"
proof -
  have b: "balance (ps_user_id shirt_scan) review_db = Some 0"
    by (simp add: balance_def single_profile_def or0_def review_scenario_defs)
  have h: "\<not> statusUpdateRefused review_ok \<and> ps_id shirt_scan \<in> set (map scan_id (scan_history review_db))
        \<and> \<not> listingLookupError review_ok \<and> \<not> listingInsertRefused review_ok
        \<and> \<not> profileUpdateRefused review_ok"
    by (simp add: review_scenario_defs)
  have i: "ps_user_id shirt_scan = 1" "ps_final_points shirt_scan = 20"
    by (simp_all add: shirt_scan_def)
  from review_guarded_by_processing [of review_ok review_db shirt_scan lamp_review 0] h b i
  show ?thesis by simp
qed

section \<open>Properties of the guest migration\<close>

lemma insert_history_profiles: "profiles (insert_history u h d) = profiles d"
proof -
  have "profiles (foldl (\<lambda>dx item. snd (insert_scan (\<lambda>i. \<lparr>scan_id = i, user_id = u,
                 item_name = name item, category_col = category item, points_col = points item,
                 base_points = None, final_points = None, status_col = None,
                 disposal_choice = None\<rparr>) dx)) d h) = profiles d"
    by (induction h arbitrary: d) (simp_all add: insert_scan_def)
  then show ?thesis by (simp add: insert_history_def)
qed

lemma insert_history_length:
  "length (scan_history (insert_history u h d)) = length (scan_history d) + length h"
proof -
  have "length (scan_history (foldl (\<lambda>dx item. snd (insert_scan (\<lambda>i. \<lparr>scan_id = i, user_id = u,
                 item_name = name item, category_col = category item, points_col = points item,
                 base_points = None, final_points = None, status_col = None,
                 disposal_choice = None\<rparr>) dx)) d h)) = length (scan_history d) + length h"
    by (induction h arbitrary: d) (simp_all add: insert_scan_def)
  then show ?thesis by (simp add: insert_history_def)
qed

lemma update_profile_twice:
  assumes "\<And>p. f (f p) = f p" and "\<And>p. profile_id (f p) = profile_id p"
  shows "update_profile u f (update_profile u f d) = update_profile u f d"
proof -
  have "map (\<lambda>p. if profile_id p = u then f p else p) (map (\<lambda>p. if profile_id p = u then f p else p) ps)
      = map (\<lambda>p. if profile_id p = u then f p else p) ps" for ps
    by (induction ps) (simp_all add: assms)
  then show ?thesis by (simp add: update_profile_def)
qed

lemma migrate_cleared:
  "migrateGuestData u (\<lparr>guest_stats = None, guest_history = None\<rparr>, d)
     = (True, \<lparr>guest_stats = None, guest_history = None\<rparr>, d)"
  by (simp add: migrateGuestData_def)

lemma migrate_success_clears:
  "fst (migrateGuestData u (ls, d)) \<Longrightarrow>
   fst (snd (migrateGuestData u (ls, d))) = \<lparr>guest_stats = None, guest_history = None\<rparr>"
  by (auto simp: migrateGuestData_def Let_def split: option.splits stored.splits)

lemma migrate_failure_keeps:
  "\<not> fst (migrateGuestData u (ls, d)) \<Longrightarrow> fst (snd (migrateGuestData u (ls, d))) = ls"
  by (auto simp: migrateGuestData_def Let_def split: option.splits stored.splits)

lemma migrate_failure_repeat:
  "\<not> fst (migrateGuestData u (ls, d)) \<Longrightarrow>
   migrateGuestData u (ls, snd (snd (migrateGuestData u (ls, d)))) = migrateGuestData u (ls, d)"
  by (auto simp: migrateGuestData_def Let_def update_profile_twice split: option.splits stored.splits)

lemma migrate_second_noop:
  "migrateGuestData u (snd (migrateGuestData u (ls, d))) =
     (fst (migrateGuestData u (ls, d)), snd (migrateGuestData u (ls, d)))"
proof (cases "fst (migrateGuestData u (ls, d))")
  case True
  obtain ok ls1 d1 where r: "migrateGuestData u (ls, d) = (ok, ls1, d1)"
    by (cases "migrateGuestData u (ls, d)") auto
  from True r migrate_success_clears [OF True] have "ok" and "ls1 = \<lparr>guest_stats = None, guest_history = None\<rparr>"
    by simp_all
  then show ?thesis by (simp add: r migrate_cleared)
next
  case False
  obtain ok ls1 d1 where r: "migrateGuestData u (ls, d) = (ok, ls1, d1)"
    by (cases "migrateGuestData u (ls, d)") auto
  from False r migrate_failure_keeps [OF False] have k: "\<not> ok" "ls1 = ls" by simp_all
  from migrate_failure_repeat [OF False] r k show ?thesis by simp
qed

lemma migrate_overwrites:
  assumes "guest_stats ls = Some (Parsed st)" and "guest_history ls \<noteq> Some Malformed"
  shows "profiles (snd (snd (migrateGuestData u (ls, d)))) =
           map (\<lambda>p. if profile_id p = u
                     then p\<lparr>total_points := Some (int_or (totalPoints st) 0),
                            level_col := Some (int_or (level st) 1),
                            streak_col := Some (int_or (streak st) 0),
                            items_recycled := Some (int_or (itemsRecycled st) 0)\<rparr>
                     else p) (profiles d)"
  using assms
  by (auto simp: migrateGuestData_def Let_def insert_history_profiles update_profile_def
      split: option.splits stored.splits)

text \<open>
  Claim C8. For every local guest state, a second run of \<open>migrateGuestData\<close> right
  after the first returns the store and the local storage exactly as the first left them:
  no scan row is inserted and no point is credited again. A successful first run has
  cleared both local entries. The first run overwrites the account's points, level, streak
  and recycled count with the guest's (it does not add them), and inserts one scan row per
  history item.
\<close>

theorem migrate_twice_noop:
  "migrateGuestData u (snd (migrateGuestData u (ls, d)))
     = (fst (migrateGuestData u (ls, d)), snd (migrateGuestData u (ls, d)))
   \<and> (fst (migrateGuestData u (ls, d)) \<longrightarrow>
        fst (snd (migrateGuestData u (ls, d))) = \<lparr>guest_stats = None, guest_history = None\<rparr>)
   \<and> (guest_stats ls = Some (Parsed st) \<and> guest_history ls \<noteq> Some Malformed \<longrightarrow>
        (\<forall>p \<in> set (profiles (snd (snd (migrateGuestData u (ls, d))))). profile_id p = u \<longrightarrow>
           total_points p = Some (int_or (totalPoints st) 0)
           \<and> level_col p = Some (int_or (level st) 1)
           \<and> streak_col p = Some (int_or (streak st) 0)
           \<and> items_recycled p = Some (int_or (itemsRecycled st) 0)))
   \<and> (guest_history ls = Some (Parsed h) \<and> guest_stats ls \<noteq> Some Malformed \<longrightarrow>
        length (scan_history (snd (snd (migrateGuestData u (ls, d)))))
          = length (scan_history d) + length h)"
proof -
  let ?r = "migrateGuestData u (ls, d)"
  let ?f = "\<lambda>p. p\<lparr>total_points := Some (int_or (totalPoints st) 0),
                            level_col := Some (int_or (level st) 1),
                            streak_col := Some (int_or (streak st) 0),
                            items_recycled := Some (int_or (itemsRecycled st) 0)\<rparr>"
  have a: "migrateGuestData u (snd ?r) = (fst ?r, snd ?r)"
    by (rule migrate_second_noop)
  have b: "fst ?r \<longrightarrow> fst (snd ?r) = \<lparr>guest_stats = None, guest_history = None\<rparr>"
    by (simp add: migrate_success_clears)
  have c: "total_points p = Some (int_or (totalPoints st) 0)
           \<and> level_col p = Some (int_or (level st) 1)
           \<and> streak_col p = Some (int_or (streak st) 0)
           \<and> items_recycled p = Some (int_or (itemsRecycled st) 0)"
    if h: "guest_stats ls = Some (Parsed st) \<and> guest_history ls \<noteq> Some Malformed"
      and p: "p \<in> set (profiles (snd (snd ?r)))" and i: "profile_id p = u" for p
  proof -
    from h have "profiles (snd (snd ?r)) =
        map (\<lambda>p. if profile_id p = u then ?f p else p) (profiles d)"
      by (intro migrate_overwrites) simp_all
    with p have "p \<in> set (map (\<lambda>p. if profile_id p = u then ?f p else p) (profiles d))" by simp
    then have "\<exists>q \<in> set (profiles d). p = ?f q"
      using i by (rule rewritten_rows) simp
    then obtain q where "p = ?f q" by blast
    then show ?thesis by simp
  qed
  have e: "length (scan_history (snd (snd ?r))) = length (scan_history d) + length h"
    if "guest_history ls = Some (Parsed h) \<and> guest_stats ls \<noteq> Some Malformed"
    using that
    by (auto simp: migrateGuestData_def Let_def insert_history_length update_profile_def
        split: option.splits stored.splits)
  from a b c e show ?thesis by blast
qed

lemmas migrate_defs = migrateGuestData_def insert_history_def insert_scan_def update_profile_def
  int_or_def Let_def

text \<open>
  A guest with 120 points and one scanned item signs in to account 7, which held 35 points.
\<close>

theorem migrate_twice_noop_witness:
  "fst (migrateGuestData 7 (guest_storage, new_account_db))
   \<and> map total_points (profiles new_account_db) = [Some 35]
   \<and> map total_points (profiles (snd (snd (migrateGuestData 7 (guest_storage, new_account_db)))))
       = [Some 120]
   \<and> length (scan_history (snd (snd (migrateGuestData 7 (guest_storage, new_account_db))))) = 1
   \<and> migrateGuestData 7 (snd (migrateGuestData 7 (guest_storage, new_account_db)))
       = (True, snd (migrateGuestData 7 (guest_storage, new_account_db)))"
proof -
  have ok: "fst (migrateGuestData 7 (guest_storage, new_account_db))"
    by (simp add: migrate_defs guest_storage_def)
  have t: "map total_points (profiles (snd (snd (migrateGuestData 7 (guest_storage, new_account_db)))))
       = [Some 120]"
    by (simp add: migrate_defs guest_storage_def new_account_db_def empty_db_def member_def)
  have n: "length (scan_history (snd (snd (migrateGuestData 7 (guest_storage, new_account_db))))) = 1"
    by (simp add: migrate_defs guest_storage_def new_account_db_def empty_db_def member_def)
  have b: "map total_points (profiles new_account_db) = [Some 35]"
    by (simp add: new_account_db_def empty_db_def member_def)
  from migrate_twice_noop [of 7 guest_storage new_account_db] ok t n b show ?thesis by simp
qed

end
